theory Spec2Isabelle
  imports Main "HOL-Library.Word"
begin

section \<open>The fbdev display backend of drivers/video/android/graphics\_fbdev.c\<close>

text \<open>
  The backend runs on a 32-bit kernel: \<^verbatim>\<open>__u32\<close>, \<^verbatim>\<open>unsigned\<close>, \<^verbatim>\<open>size_t\<close>,
  \<^verbatim>\<open>unsigned long\<close> and pointers are 32-bit words whose arithmetic wraps around.
  Memory is one flat store of bytes indexed by address.
\<close>

type_synonym u32 = "32 word"
type_synonym byte = "8 word"
type_synonym addr = "32 word"
type_synonym memory = "addr \<Rightarrow> byte"

subsection \<open>Data\<close>

text \<open>
  Modelled from the spec: the declaration of \<^verbatim>\<open>GRSurface\<close> (minui.h) is not among the
  sources. Section 3 of the specification gives its fields: \<open>width\<close> and \<open>height\<close>
  (unsigned pixel counts), \<open>row_bytes\<close>, \<open>pixel_bytes\<close> and the byte buffer \<open>data\<close>.
\<close>

record GRSurface =
  width :: u32
  height :: u32
  row_bytes :: u32
  pixel_bytes :: u32
  data :: addr

text \<open>
  The fields of \<^verbatim>\<open>struct fb_fix_screeninfo\<close>, \<^verbatim>\<open>struct fb_var_screeninfo\<close> and
  \<^verbatim>\<open>struct fb_info\<close> (linux/fb.h) that the backend reads or writes. The colour
  bitfields of the variable information are only printed and are left out.
\<close>

record fb_fix_screeninfo =
  smem_len :: u32
  line_length :: u32
  mmio_start :: addr

record fb_var_screeninfo =
  xres :: u32
  yres :: u32
  yres_virtual :: u32
  yoffset :: u32
  bits_per_pixel :: u32

record fb_info =
  fb_fix :: fb_fix_screeninfo

text \<open>
  A \<^verbatim>\<open>GRSurface*\<close>: null, the address of an element of the static array
  \<^verbatim>\<open>gr_framebuffer\<close> (\<^verbatim>\<open>gr_framebuffer + i\<close>), or the address of a descriptor obtained
  from \<^verbatim>\<open>kmalloc\<close>.
\<close>

datatype surface_ptr = NULL_surface | Framebuffer int | Allocated addr

datatype blank_mode = FB_BLANK_UNBLANK | FB_BLANK_POWERDOWN

text \<open>The commands sent to the device through \<^verbatim>\<open>fb_ioctl\<close>, with the argument that matters.\<close>

datatype fb_cmd =
  FBIOGET_FSCREENINFO
  | FBIOGET_VSCREENINFO
  | FBIOPUT_VSCREENINFO fb_var_screeninfo
  | FBIOBLANK blank_mode

text \<open>
  What stops the kernel: an access through a pointer that is null or addresses no
  descriptor, and \<^verbatim>\<open>kfree\<close> of an address that is no live block.
\<close>

datatype fault = NullDereference | InvalidFree

text \<open>
  The statics of the file (\<open>gr_framebuffer\<close> to \<open>fbi\<close>), and the part of the kernel they
  live in: the registered framebuffers, memory, the allocator's live blocks (address and
  size), the descriptors stored in allocated blocks (kept as records, not as bytes of
  \<open>mem\<close>), the kernel log, and the commands the device has received.
\<close>

record fbdev_state =
  gr_framebuffer :: "GRSurface \<times> GRSurface"
  double_buffered :: bool
  gr_draw :: surface_ptr
  displayed_buffer :: int
  vi :: fb_var_screeninfo
  fbi :: "fb_info option"
  num_registered_fb :: int
  registered_fb :: "fb_info option list"
  mem :: memory
  surfaces :: "addr \<rightharpoonup> GRSurface"
  blocks :: "(addr \<times> nat) list"
  klog :: "string list"
  issued :: "fb_cmd list"

text \<open>
  What the environment answers during one call of \<open>fbdev_init\<close>: the structures the two
  query commands fill in, the addresses the allocator offers for the two \<^verbatim>\<open>kmalloc\<close>
  calls (\<open>None\<close>: out of memory), and the return values of the three later commands.
\<close>

record init_env =
  fi_reply :: fb_fix_screeninfo
  vi_reply :: fb_var_screeninfo
  surface_alloc :: "addr option"
  data_alloc :: "addr option"
  put_ret :: int
  blank_ret :: int
  unblank_ret :: int

subsection \<open>Kernel services\<close>

text \<open>
  Modelled from the spec: \<^verbatim>\<open>printk\<close>, \<^verbatim>\<open>memset\<close>, \<^verbatim>\<open>memcpy\<close>, \<^verbatim>\<open>kmalloc\<close> and
  \<^verbatim>\<open>kfree\<close> are kernel code outside the sources. \<open>printk\<close> appends its format string to
  the log ("logged"); \<open>memset\<close> fills and \<open>memcpy\<close> copies \<open>n\<close> bytes in ascending
  address order ("zero-fills", "byte-for-byte copy"); \<open>kmalloc\<close> fails with the null
  pointer or returns "a freshly allocated, independent memory block (not device
  memory)"; \<open>kfree\<close> releases a block, and does nothing on the null pointer.
\<close>

definition printk :: "string \<Rightarrow> fbdev_state \<Rightarrow> fbdev_state" where
  "printk msg s = s\<lparr>klog := klog s @ [msg]\<rparr>"

fun memset :: "memory \<Rightarrow> addr \<Rightarrow> byte \<Rightarrow> nat \<Rightarrow> memory" where
  "memset m p c 0 = m"
| "memset m p c (Suc n) = memset (m(p := c)) (p + 1) c n"

fun memcpy :: "memory \<Rightarrow> addr \<Rightarrow> addr \<Rightarrow> nat \<Rightarrow> memory" where
  "memcpy m dst src 0 = m"
| "memcpy m dst src (Suc n) = memcpy (m(dst := m src)) (dst + 1) (src + 1) n"

text \<open>
  The \<open>n\<close> bytes from \<open>p\<close> and the \<open>k\<close> bytes from \<open>q\<close> share no address; both runs may
  wrap around the end of the address space. The allocator offers a block only where it
  is not null, does not wrap, starts at no live block's address, and is disjoint from
  every live block and from the memory of every registered device.
\<close>

definition regions_disjoint :: "addr \<Rightarrow> nat \<Rightarrow> addr \<Rightarrow> nat \<Rightarrow> bool" where
  "regions_disjoint p n q k = (n = 0 \<or> k = 0 \<or> (n \<le> unat (q - p) \<and> k \<le> unat (p - q)))"

definition device_regions :: "fbdev_state \<Rightarrow> (addr \<times> nat) list" where
  "device_regions s =
     map (\<lambda>fb. (mmio_start (fb_fix fb), unat (smem_len (fb_fix fb))))
       (List.map_filter id (registered_fb s))"

definition block_available :: "fbdev_state \<Rightarrow> addr \<Rightarrow> nat \<Rightarrow> bool" where
  "block_available s a n =
     (a \<noteq> 0 \<and> unat a + n \<le> 2 ^ 32 \<and>
      list_all (\<lambda>r. fst r \<noteq> a) (blocks s) \<and>
      list_all (\<lambda>r. regions_disjoint a n (fst r) (snd r)) (blocks s @ device_regions s))"

definition kmalloc :: "addr option \<Rightarrow> nat \<Rightarrow> fbdev_state \<Rightarrow> addr \<times> fbdev_state" where
  "kmalloc offer n s =
     (case offer of
        None \<Rightarrow> (0, s)
      | Some a \<Rightarrow>
          if block_available s a n then (a, s\<lparr>blocks := (a, n) # blocks s\<rparr>) else (0, s))"

definition kfree :: "addr \<Rightarrow> fbdev_state \<Rightarrow> fault + fbdev_state" where
  "kfree p s =
     (if p = 0 then Inr s
      else if p \<in> fst ` set (blocks s)
      then Inr (s\<lparr>blocks := filter (\<lambda>b. fst b \<noteq> p) (blocks s),
                  surfaces := (surfaces s)(p := None)\<rparr>)
      else Inl InvalidFree)"

text \<open>\<^verbatim>\<open>sizeof(GRSurface)\<close>: four 32-bit integers and a pointer.\<close>

definition sizeof_GRSurface :: nat where
  "sizeof_GRSurface = 20"

text \<open>Reading through a \<^verbatim>\<open>GRSurface*\<close>; \<open>None\<close> where the pointer addresses no descriptor.\<close>

definition surface_at :: "fbdev_state \<Rightarrow> surface_ptr \<Rightarrow> GRSurface option" where
  "surface_at s p =
     (case p of
        NULL_surface \<Rightarrow> None
      | Framebuffer i \<Rightarrow>
          if i = 0 then Some (fst (gr_framebuffer s))
          else if i = 1 then Some (snd (gr_framebuffer s))
          else None
      | Allocated a \<Rightarrow> surfaces s a)"

text \<open>\<^verbatim>\<open>registered_fb[i]\<close>: an array of pointers, null where no device is registered.\<close>

definition registered_fb_at :: "fbdev_state \<Rightarrow> nat \<Rightarrow> fb_info option" where
  "registered_fb_at s i = (if i < length (registered_fb s) then registered_fb s ! i else None)"

text \<open>
  One call of \<^verbatim>\<open>fb->fbops->fb_ioctl\<close>: the device receives the command. The driver is
  taken to provide the handler; what it answers is given to each operation as an
  argument.
\<close>

definition fb_ioctl :: "fb_cmd \<Rightarrow> fbdev_state \<Rightarrow> fbdev_state" where
  "fb_ioctl cmd s = s\<lparr>issued := issued s @ [cmd]\<rparr>"

subsection \<open>The backend\<close>

definition fbdev_blank :: "int \<Rightarrow> bool \<Rightarrow> fbdev_state \<Rightarrow> fault + fbdev_state" where
  "fbdev_blank ret blank s =
     (case fbi s of
        None \<Rightarrow> Inl NullDereference
      | Some fb \<Rightarrow>
          let s1 = fb_ioctl (FBIOBLANK (if blank then FB_BLANK_POWERDOWN else FB_BLANK_UNBLANK)) s
          in Inr (if ret < 0 then printk ''ioctl(): blank'' s1 else s1))"

definition set_displayed_framebuffer :: "int \<Rightarrow> u32 \<Rightarrow> fbdev_state \<Rightarrow> fault + fbdev_state" where
  "set_displayed_framebuffer ret n s =
     (if n > 1 \<or> \<not> double_buffered s then Inr s
      else
        let fb0 = fst (gr_framebuffer s);
            s1 = s\<lparr>vi := (vi s)\<lparr>yres_virtual := height fb0 * 2,
                                  yoffset := n * height fb0,
                                  bits_per_pixel := pixel_bytes fb0 * 8\<rparr>\<rparr>
        in case fbi s1 of
             None \<Rightarrow> Inl NullDereference
           | Some fb \<Rightarrow>
               let s2 = fb_ioctl (FBIOPUT_VSCREENINFO (vi s1)) s1;
                   s3 = (if ret < 0 then printk ''active fb swap failed'' s2 else s2)
               in Inr (s3\<lparr>displayed_buffer := uint n\<rparr>))"

text \<open>
  \<open>fbdev_init\<close> from the first \<^verbatim>\<open>fb_ioctl\<close> to the \<^verbatim>\<open>memset\<close> of buffer 0 (the return
  values of the two queries are not looked at; \<open>fi\<close> is whatever the first one left).
\<close>

definition fbdev_init_clear :: "init_env \<Rightarrow> fb_info \<Rightarrow> fbdev_state \<Rightarrow> fbdev_state" where
  "fbdev_init_clear e fb s =
     (let fi = fi_reply e;
          s1 = fb_ioctl FBIOGET_FSCREENINFO s;
          s2 = (fb_ioctl FBIOGET_VSCREENINFO s1)\<lparr>vi := vi_reply e\<rparr>;
          s3 = printk ''fb0 reports (possibly inaccurate):'' s2;
          bits = mmio_start (fb_fix fb);
          s4 = s3\<lparr>mem := memset (mem s3) bits 0 (unat (smem_len (fb_fix fb)))\<rparr>;
          fb0 = \<lparr>width = xres (vi s4), height = yres (vi s4), row_bytes = line_length fi,
                 pixel_bytes = bits_per_pixel (vi s4) div 8, data = bits\<rparr>;
          s5 = s4\<lparr>gr_framebuffer := (fb0, snd (gr_framebuffer s4))\<rparr>
      in s5\<lparr>mem := memset (mem s5) (data fb0) 0 (unat (height fb0 * row_bytes fb0))\<rparr>)"

text \<open>The branch that uses double buffering.\<close>

definition fbdev_init_double :: "fbdev_state \<Rightarrow> fbdev_state" where
  "fbdev_init_double s =
     (let fb0 = fst (gr_framebuffer s);
          fb1 = fb0\<lparr>data := data fb0 + height fb0 * row_bytes fb0\<rparr>
      in s\<lparr>double_buffered := True, gr_framebuffer := (fb0, fb1), gr_draw := Framebuffer 1\<rparr>)"

text \<open>
  The branch without double buffering; the flag of the result says whether the drawing
  buffer was allocated. The descriptor's \<^verbatim>\<open>kmalloc\<close> is not checked: \<^verbatim>\<open>memcpy\<close> writes
  through its result.
\<close>

definition fbdev_init_single :: "init_env \<Rightarrow> fbdev_state \<Rightarrow> fault + (fbdev_state \<times> bool)" where
  "fbdev_init_single e s =
     (let s1 = s\<lparr>double_buffered := False\<rparr>;
          (p, s2) = kmalloc (surface_alloc e) sizeof_GRSurface s1;
          s3 = s2\<lparr>gr_draw := (if p = 0 then NULL_surface else Allocated p)\<rparr>
      in if p = 0 then Inl NullDereference
         else
           let d = fst (gr_framebuffer s3);
               s4 = s3\<lparr>surfaces := (surfaces s3)(p \<mapsto> d)\<rparr>;
               (q, s5) = kmalloc (data_alloc e) (unat (height d * row_bytes d)) s4;
               s6 = s5\<lparr>surfaces := (surfaces s5)(p \<mapsto> d\<lparr>data := q\<rparr>)\<rparr>
           in if q = 0
              then Inr (printk ''failed to allocate in-memory surface'' s6, False)
              else Inr (s6, True))"

text \<open>From the \<^verbatim>\<open>memset\<close> of the drawing buffer to the end.\<close>

definition fbdev_init_finish ::
  "init_env \<Rightarrow> fb_info \<Rightarrow> fbdev_state \<Rightarrow> fault + (surface_ptr \<times> fbdev_state)" where
  "fbdev_init_finish e fb s =
     (case surface_at s (gr_draw s) of
        None \<Rightarrow> Inl NullDereference
      | Some d \<Rightarrow>
          (let s1 = s\<lparr>mem := memset (mem s) (data d) 0 (unat (height d * row_bytes d))\<rparr>;
               s2 = s1\<lparr>fbi := Some fb\<rparr>
           in (case set_displayed_framebuffer (put_ret e) 0 s2 of
                 Inl f \<Rightarrow> Inl f
               | Inr s3 \<Rightarrow>
                   (case fbdev_blank (blank_ret e) True (printk ''framebuffer: %d x %d'' s3) of
                      Inl f \<Rightarrow> Inl f
                    | Inr s5 \<Rightarrow>
                        (case fbdev_blank (unblank_ret e) False s5 of
                           Inl f \<Rightarrow> Inl f
                         | Inr s6 \<Rightarrow> Inr (gr_draw s6, s6))))))"

definition fbdev_init :: "init_env \<Rightarrow> fbdev_state \<Rightarrow> fault + (surface_ptr \<times> fbdev_state)" where
  "fbdev_init e s =
     (if num_registered_fb s = 0 then Inr (NULL_surface, s)
      else
        (case registered_fb_at s 0 of
           None \<Rightarrow> Inl NullDereference
         | Some fb \<Rightarrow>
             (let s1 = fbdev_init_clear e fb s
              in if yres (vi s1) * line_length (fi_reply e) * 2 \<le> smem_len (fi_reply e)
                 then fbdev_init_finish e fb (fbdev_init_double s1)
                 else
                   (case fbdev_init_single e s1 of
                      Inl f \<Rightarrow> Inl f
                    | Inr (s2, allocated) \<Rightarrow>
                        if allocated then fbdev_init_finish e fb s2 else Inr (NULL_surface, s2)))))"

text \<open>
  One pass of the loop compiled under \<^verbatim>\<open>RECOVERY_BGRA\<close>: four byte assignments, in the
  order of the source, each reading the memory the earlier ones have written.
\<close>

definition bgra_pixel :: "memory \<Rightarrow> addr \<Rightarrow> addr \<Rightarrow> u32 \<Rightarrow> memory" where
  "bgra_pixel m ucfb_vaddr ucbuffer_vaddr idx =
     (let m1 = m(ucfb_vaddr + idx := m (ucbuffer_vaddr + (idx + 2)));
          m2 = m1(ucfb_vaddr + (idx + 1) := m1 (ucbuffer_vaddr + (idx + 1)));
          m3 = m2(ucfb_vaddr + (idx + 2) := m2 (ucbuffer_vaddr + idx))
      in m3(ucfb_vaddr + (idx + 3) := m3 (ucbuffer_vaddr + (idx + 3))))"

text \<open>
  The loop \<^verbatim>\<open>for (idx = 0; idx < n; idx += 4)\<close> on an \<^verbatim>\<open>unsigned int\<close>: \<open>idx + 4\<close>
  wraps around, so the loop need not end; \<open>None\<close> is the run that never leaves it.
\<close>

partial_function (option) bgra_loop ::
  "memory \<Rightarrow> addr \<Rightarrow> addr \<Rightarrow> u32 \<Rightarrow> u32 \<Rightarrow> memory option" where
  "bgra_loop m ucfb_vaddr ucbuffer_vaddr n idx =
     (if idx < n
      then bgra_loop (bgra_pixel m ucfb_vaddr ucbuffer_vaddr idx) ucfb_vaddr ucbuffer_vaddr n (idx + 4)
      else Some m)"

text \<open>
  \<open>fbdev_flip\<close>; \<open>recovery_bgra\<close> says whether the file was compiled with
  \<^verbatim>\<open>RECOVERY_BGRA\<close> defined, \<open>ret\<close> is what the device returns if it is sent a command.
  Memory is a total store here, so the copy does not say that the kernel faults on a
  read or write at the null address: the statements about the copy are about drawing
  buffers whose \<open>data\<close> is not null, as \<open>fbdev_init\<close> leaves it whenever it returns a
  surface.
\<close>

definition fbdev_flip ::
  "bool \<Rightarrow> int \<Rightarrow> fbdev_state \<Rightarrow> (fault + (surface_ptr \<times> fbdev_state)) option" where
  "fbdev_flip recovery_bgra ret s =
     (if double_buffered s
      then
        (let s1 = s\<lparr>gr_draw := Framebuffer (displayed_buffer s)\<rparr>
         in (case set_displayed_framebuffer ret (word_of_int (1 - displayed_buffer s1)) s1 of
               Inl f \<Rightarrow> Some (Inl f)
             | Inr s2 \<Rightarrow> Some (Inr (gr_draw s2, s2))))
      else
        (case surface_at s (gr_draw s) of
           None \<Rightarrow> Some (Inl NullDereference)
         | Some d \<Rightarrow>
             if recovery_bgra
             then
               map_option (\<lambda>m. Inr (gr_draw s, s\<lparr>mem := m\<rparr>))
                 (bgra_loop (mem s) (data (fst (gr_framebuffer s))) (data d)
                    (height d * row_bytes d) 0)
             else
               Some (Inr (gr_draw s,
                 s\<lparr>mem := memcpy (mem s) (data (fst (gr_framebuffer s))) (data d)
                             (unat (height d * row_bytes d))\<rparr>))))"

text \<open>\<^verbatim>\<open>kfree\<close> of a \<^verbatim>\<open>GRSurface*\<close>: an element of the static array is no block of the allocator.\<close>

definition kfree_surface :: "surface_ptr \<Rightarrow> fbdev_state \<Rightarrow> fault + fbdev_state" where
  "kfree_surface p s =
     (case p of
        NULL_surface \<Rightarrow> Inr s
      | Framebuffer i \<Rightarrow> Inl InvalidFree
      | Allocated a \<Rightarrow> kfree a s)"

definition fbdev_exit :: "fbdev_state \<Rightarrow> fault + fbdev_state" where
  "fbdev_exit s =
     (if \<not> double_buffered s \<and> gr_draw s \<noteq> NULL_surface
      then
        (case surface_at s (gr_draw s) of
           None \<Rightarrow> Inl NullDereference
         | Some d \<Rightarrow>
             (case kfree (data d) s of
                Inl f \<Rightarrow> Inl f
              | Inr s1 \<Rightarrow>
                  (case kfree_surface (gr_draw s1) s1 of
                     Inl f \<Rightarrow> Inl f
                   | Inr s2 \<Rightarrow> Inr (s2\<lparr>gr_draw := NULL_surface\<rparr>))))
      else Inr (s\<lparr>gr_draw := NULL_surface\<rparr>))"

text \<open>
  A caller that flips once per frame: the device's return values, one per flip, and the
  state after the last one.
\<close>

fun flips :: "bool \<Rightarrow> int list \<Rightarrow> fbdev_state \<Rightarrow> (fault + fbdev_state) option" where
  "flips recovery_bgra [] s = Some (Inr s)"
| "flips recovery_bgra (ret # rets) s =
     (case fbdev_flip recovery_bgra ret s of
        None \<Rightarrow> None
      | Some (Inl f) \<Rightarrow> Some (Inl f)
      | Some (Inr (p, s1)) \<Rightarrow> flips recovery_bgra rets s1)"

text \<open>The addresses of the \<open>n\<close> bytes from \<open>p\<close>.\<close>

definition region :: "addr \<Rightarrow> nat \<Rightarrow> addr set" where
  "region p n = set (map (\<lambda>i. p + of_nat i) [0..<n])"

subsection \<open>Notions used in the statements and proofs\<close>

text \<open>\<open>k\<close> consecutive passes of the \<^verbatim>\<open>RECOVERY_BGRA\<close> loop, starting at index \<open>idx\<close>.\<close>

fun bgra_pixels :: "memory \<Rightarrow> addr \<Rightarrow> addr \<Rightarrow> u32 \<Rightarrow> nat \<Rightarrow> memory" where
  "bgra_pixels m f b idx 0 = m"
| "bgra_pixels m f b idx (Suc k) = bgra_pixels (bgra_pixel m f b idx) f b (idx + 4) k"

text \<open>The byte of a source pixel that lands in byte \<open>c\<close> of the device's pixel.\<close>

definition bgra_src :: "nat \<Rightarrow> nat" where
  "bgra_src c = (if c = 0 then 2 else if c = 2 then 0 else c)"

text \<open>
  The number of bytes at \<open>gr_framebuffer[0].data\<close> that a flip without double buffering
  writes, for an extent of \<open>n\<close> bytes: all of them, and under \<^verbatim>\<open>RECOVERY_BGRA\<close> four
  for every pass of the loop.
\<close>

definition flip_extent :: "bool \<Rightarrow> nat \<Rightarrow> nat" where
  "flip_extent recovery_bgra n = (if recovery_bgra then 4 * ((n + 3) div 4) else n)"

text \<open>
  What holds between two flips under hardware double buffering: the device is set, the
  displayed index is 0 or 1, and the caller draws into the other buffer.
\<close>

definition hw_ready :: "GRSurface \<Rightarrow> fbdev_state \<Rightarrow> bool" where
  "hw_ready fb0 s =
     (double_buffered s \<and> fbi s \<noteq> None \<and>
      (displayed_buffer s = 0 \<or> displayed_buffer s = 1) \<and>
      gr_draw s = Framebuffer (1 - displayed_buffer s) \<and>
      fst (gr_framebuffer s) = fb0)"

subsection \<open>A small device\<close>

text \<open>
  A panel of 2 by 2 pixels of four bytes, rows of 8 bytes, with its memory at address
  \<open>0x1000\<close>: \<open>panel\<close> has room for two frames, \<open>small_panel\<close> for one. \<open>boot\<close> is the
  state when the module is loaded (the statics are zero) with the device registered, and
  \<open>answers\<close> an environment in which every command succeeds and the allocator offers
  the blocks at \<open>0x2000\<close> and \<open>0x3000\<close>.
\<close>

definition panel :: fb_info where
  "panel = \<lparr>fb_fix = \<lparr>smem_len = 32, line_length = 8, mmio_start = 0x1000\<rparr>\<rparr>"

definition small_panel :: fb_info where
  "small_panel = \<lparr>fb_fix = \<lparr>smem_len = 16, line_length = 8, mmio_start = 0x1000\<rparr>\<rparr>"

definition panel_vi :: fb_var_screeninfo where
  "panel_vi = \<lparr>xres = 2, yres = 2, yres_virtual = 2, yoffset = 0, bits_per_pixel = 32\<rparr>"

definition boot :: "fb_info \<Rightarrow> fbdev_state" where
  "boot fb =
     \<lparr>gr_framebuffer =
        (\<lparr>width = 0, height = 0, row_bytes = 0, pixel_bytes = 0, data = 0\<rparr>,
         \<lparr>width = 0, height = 0, row_bytes = 0, pixel_bytes = 0, data = 0\<rparr>),
      double_buffered = False, gr_draw = NULL_surface, displayed_buffer = 0,
      vi = \<lparr>xres = 0, yres = 0, yres_virtual = 0, yoffset = 0, bits_per_pixel = 0\<rparr>,
      fbi = None, num_registered_fb = 1, registered_fb = [Some fb],
      mem = (\<lambda>a. 0xAA), surfaces = Map.empty, blocks = [], klog = [], issued = []\<rparr>"

definition answers :: "fb_info \<Rightarrow> init_env" where
  "answers fb =
     \<lparr>fi_reply = fb_fix fb, vi_reply = panel_vi,
      surface_alloc = Some 0x2000, data_alloc = Some 0x3000,
      put_ret = 0, blank_ret = 0, unblank_ret = 0\<rparr>"

section \<open>Memory\<close>

lemma region_image: "region p n = (\<lambda>i. p + of_nat i) ` {i. i < n}"
  by (auto simp: region_def)

lemma region_0: "region p 0 = {}"
  by (simp add: region_image)

lemma region_Suc: "region p (Suc n) = insert (p + of_nat n) (region p n)"
  by (auto simp: region_image less_Suc_eq)

lemma region_I: "i < n \<Longrightarrow> p + of_nat i \<in> region p n"
  by (auto simp: region_image)

lemma region_mono: "n \<le> k \<Longrightarrow> region p n \<subseteq> region p k"
  by (auto simp: region_image)

lemma region_shift_subset: "region (p + of_nat a) n \<subseteq> region p (a + n)"
proof
  fix x assume "x \<in> region (p + of_nat a) n"
  then obtain i where "i < n" "x = p + of_nat a + of_nat i" by (auto simp: region_image)
  then have "a + i < a + n" "x = p + of_nat (a + i)" by simp_all
  then show "x \<in> region p (a + n)" unfolding region_image by blast
qed

lemma region_4: "region p 4 = {p, p + 1, p + 2, p + 3}"
proof -
  have "{i::nat. i < 4} = {0, 1, 2, 3}" by auto
  then show ?thesis by (simp add: region_image)
qed

lemma of_nat_addr_neq:
  "x < 2 ^ 32 \<Longrightarrow> y < 2 ^ 32 \<Longrightarrow> x \<noteq> y \<Longrightarrow> (of_nat x :: addr) \<noteq> of_nat y"
proof
  assume "x < 2 ^ 32" "y < 2 ^ 32" "x \<noteq> y" and eq: "(of_nat x :: addr) = of_nat y"
  from eq have "unat (of_nat x :: addr) = unat (of_nat y :: addr)" by simp
  with \<open>x < 2 ^ 32\<close> \<open>y < 2 ^ 32\<close> have "x = y" by (simp add: unat_of_nat)
  with \<open>x \<noteq> y\<close> show False by simp
qed

text \<open>Blocks that \<open>regions_disjoint\<close> accepts share no address.\<close>

lemma regions_disjoint_neq:
  assumes "regions_disjoint p n q k" "i < n" "j < k"
  shows "p + of_nat i \<noteq> q + of_nat j"
proof
  assume eq: "p + of_nat i = q + of_nat j"
  define x where "x = q - p"
  from assms have far: "n \<le> unat x" "k \<le> unat (0 - x)"
    by (auto simp: regions_disjoint_def x_def)
  from eq have sum: "x + of_nat j = (of_nat i :: addr)"
    by (simp add: x_def algebra_simps)
  have i_le: "unat (of_nat i :: addr) \<le> i" and j_le: "unat (of_nat j :: addr) \<le> j"
    by (simp_all add: unat_of_nat)
  from far assms(2) have "unat x \<noteq> 0" by simp
  then have neg: "unat (0 - x) = 2 ^ 32 - unat x"
    using unat_sub_if_size [of 0 x] by (simp add: word_size)
  with far(2) assms(3) j_le have "unat x + unat (of_nat j :: addr) < 2 ^ 32"
    by simp
  then have "unat (x + of_nat j) = unat x + unat (of_nat j :: addr)"
    by (simp add: unat_add_lem [where 'a = 32, simplified])
  with sum i_le far(1) assms(2) show False by simp
qed

lemma regions_disjoint_region:
  "regions_disjoint p n q k \<Longrightarrow> region p n \<inter> region q k = {}"
  using regions_disjoint_neq by (fastforce simp: region_image)

lemma regions_disjoint_sym: "regions_disjoint p n q k \<Longrightarrow> regions_disjoint q k p n"
  by (auto simp: regions_disjoint_def)

lemma regions_disjoint_shrink:
  "regions_disjoint p n q k \<Longrightarrow> n' \<le> n \<Longrightarrow> k' \<le> k \<Longrightarrow> regions_disjoint p n' q k'"
  by (auto simp: regions_disjoint_def)

subsection \<open>memset and memcpy\<close>

lemma memset_snoc: "memset m p c (Suc n) = (memset m p c n)(p + of_nat n := c)"
proof (induction n arbitrary: m p)
  case 0
  show ?case by simp
next
  case (Suc n)
  have "memset m p c (Suc (Suc n)) = memset (m(p := c)) (p + 1) c (Suc n)" by simp
  also have "\<dots> = (memset (m(p := c)) (p + 1) c n)(p + 1 + of_nat n := c)"
    by (rule Suc.IH)
  finally show ?case by (simp add: add.assoc)
qed

lemma memset_apply: "memset m p c n a = (if a \<in> region p n then c else m a)"
proof (induction n)
  case 0
  show ?case by (simp add: region_0)
next
  case (Suc n)
  show ?case unfolding memset_snoc using Suc.IH by (simp add: region_Suc)
qed

lemma memcpy_snoc:
  "memcpy m dst src (Suc n) =
     (memcpy m dst src n)(dst + of_nat n := memcpy m dst src n (src + of_nat n))"
proof (induction n arbitrary: m dst src)
  case 0
  show ?case by simp
next
  case (Suc n)
  have "memcpy m dst src (Suc (Suc n)) = memcpy (m(dst := m src)) (dst + 1) (src + 1) (Suc n)"
    by simp
  also have "\<dots> = (memcpy (m(dst := m src)) (dst + 1) (src + 1) n)
      (dst + 1 + of_nat n := memcpy (m(dst := m src)) (dst + 1) (src + 1) n (src + 1 + of_nat n))"
    by (rule Suc.IH)
  finally show ?case by (simp add: add.assoc)
qed

lemma memcpy_frame: "a \<notin> region dst n \<Longrightarrow> memcpy m dst src n a = m a"
proof (induction n)
  case 0
  show ?case by simp
next
  case (Suc n)
  then show ?case unfolding memcpy_snoc by (simp add: region_Suc)
qed

lemma memcpy_copies:
  "region dst n \<inter> region src n = {} \<Longrightarrow> i < n \<Longrightarrow>
   memcpy m dst src n (dst + of_nat i) = m (src + of_nat i)"
proof (induction n)
  case 0
  then show ?case by simp
next
  case (Suc n)
  have disj: "region dst n \<inter> region src n = {}"
    using Suc.prems(1) by (auto simp: region_Suc)
  have last: "src + of_nat n \<notin> region dst n"
    using Suc.prems(1) by (auto simp: region_Suc)
  show ?case
  proof (cases "dst + of_nat i = dst + of_nat n")
    case True
    then have "(of_nat i :: addr) = of_nat n" by simp
    then show ?thesis unfolding memcpy_snoc using last by (simp add: memcpy_frame)
  next
    case False
    then have "i \<noteq> n" by auto
    with Suc.prems(2) have "i < n" by simp
    then show ?thesis unfolding memcpy_snoc using False Suc.IH[OF disj] by simp
  qed
qed

subsection \<open>The channel-swapping loop\<close>

lemma bgra_pixel_frame: "a \<notin> region (f + idx) 4 \<Longrightarrow> bgra_pixel m f b idx a = m a"
  by (simp add: region_4 bgra_pixel_def Let_def add.assoc)

lemma bgra_pixel_values:
  assumes "region (f + idx) 4 \<inter> region (b + idx) 4 = {}"
  shows "bgra_pixel m f b idx (f + idx) = m (b + idx + 2)"
    and "bgra_pixel m f b idx (f + idx + 1) = m (b + idx + 1)"
    and "bgra_pixel m f b idx (f + idx + 2) = m (b + idx)"
    and "bgra_pixel m f b idx (f + idx + 3) = m (b + idx + 3)"
  using assms by (auto simp: region_4 bgra_pixel_def Let_def add.assoc)


lemma bgra_pixel_value:
  assumes "region (f + idx) 4 \<inter> region (b + idx) 4 = {}" "c < 4"
  shows "bgra_pixel m f b idx (f + idx + of_nat c) = m (b + idx + of_nat (bgra_src c))"
proof -
  from assms(2) consider "c = 0" | "c = 1" | "c = 2" | "c = 3" by linarith
  then show ?thesis
    using bgra_pixel_values [OF assms(1), of m] by cases (simp_all add: bgra_src_def)
qed

lemma bgra_pixels_frame:
  "a \<notin> region (f + idx) (4 * k) \<Longrightarrow> bgra_pixels m f b idx k a = m a"
proof (induction k arbitrary: m idx)
  case 0
  show ?case by simp
next
  case (Suc k)
  have "region (f + idx + of_nat 4) (4 * k) \<subseteq> region (f + idx) (4 + 4 * k)"
    by (rule region_shift_subset)
  with Suc.prems have rest: "a \<notin> region (f + (idx + 4)) (4 * k)"
    by (auto simp: add.assoc)
  have "region (f + idx) 4 \<subseteq> region (f + idx) (4 * Suc k)"
    by (rule region_mono) simp
  with Suc.prems have first: "a \<notin> region (f + idx) 4" by auto
  show ?case using Suc.IH [OF rest] first by (simp add: bgra_pixel_frame)
qed

lemma bgra_pixels_value:
  assumes "region (f + idx) (4 * k) \<inter> region (b + idx) (4 * k) = {}"
    and "4 * k \<le> 2 ^ 32" and "j < k" and "c < 4"
  shows "bgra_pixels m f b idx k (f + idx + of_nat (4 * j + c)) =
         m (b + idx + of_nat (4 * j + bgra_src c))"
  using assms
proof (induction k arbitrary: m idx j)
  case 0
  then show ?case by simp
next
  case (Suc k)
  have sub_f: "region (f + (idx + 4)) (4 * k) \<subseteq> region (f + idx) (4 * Suc k)"
    using region_shift_subset [of "f + idx" 4 "4 * k"] by (simp add: add.assoc)
  have sub_b: "region (b + (idx + 4)) (4 * k) \<subseteq> region (b + idx) (4 * Suc k)"
    using region_shift_subset [of "b + idx" 4 "4 * k"] by (simp add: add.assoc)
  have first_f: "region (f + idx) 4 \<subseteq> region (f + idx) (4 * Suc k)"
    and first_b: "region (b + idx) 4 \<subseteq> region (b + idx) (4 * Suc k)"
    by (rule region_mono, simp)+
  have disj_rest: "region (f + (idx + 4)) (4 * k) \<inter> region (b + (idx + 4)) (4 * k) = {}"
    using Suc.prems(1) sub_f sub_b by blast
  have disj_first: "region (f + idx) 4 \<inter> region (b + idx) 4 = {}"
    using Suc.prems(1) first_f first_b by blast
  have src_lt: "bgra_src c < 4" using Suc.prems(4) by (simp add: bgra_src_def)
  show ?case
  proof (cases j)
    case 0
    have "f + idx + of_nat c \<notin> region (f + (idx + 4)) (4 * k)"
    proof
      assume "f + idx + of_nat c \<in> region (f + (idx + 4)) (4 * k)"
      then obtain i where i: "i < 4 * k" "f + idx + of_nat c = f + (idx + 4) + of_nat i"
        by (auto simp: region_image)
      then have "(of_nat c :: addr) = of_nat (4 + i)" by (simp add: add.assoc)
      moreover have "(of_nat c :: addr) \<noteq> of_nat (4 + i)"
        using i(1) Suc.prems(2,4) by (intro of_nat_addr_neq) simp_all
      ultimately show False by simp
    qed
    then have "bgra_pixels (bgra_pixel m f b idx) f b (idx + 4) k (f + idx + of_nat c) =
               bgra_pixel m f b idx (f + idx + of_nat c)"
      by (rule bgra_pixels_frame)
    with 0 show ?thesis
      using bgra_pixel_value [OF disj_first Suc.prems(4), of m] by simp
  next
    case (Suc j')
    with Suc.prems(3) have j': "j' < k" by simp
    have addr_f: "f + idx + of_nat (4 * j + c) = f + (idx + 4) + of_nat (4 * j' + c)"
      using Suc by (simp add: add.assoc)
    have addr_b: "b + idx + of_nat (4 * j + bgra_src c) =
                  b + (idx + 4) + of_nat (4 * j' + bgra_src c)"
      using Suc by (simp add: add.assoc)
    have "4 * j + bgra_src c < 4 * Suc k" using Suc.prems(3) src_lt by simp
    then have "b + idx + of_nat (4 * j + bgra_src c) \<in> region (b + idx) (4 * Suc k)"
      by (rule region_I)
    with Suc.prems(1) first_f
    have out: "b + idx + of_nat (4 * j + bgra_src c) \<notin> region (f + idx) 4" by blast
    have "bgra_pixels m f b idx (Suc k) (f + idx + of_nat (4 * j + c)) =
          bgra_pixel m f b idx (b + (idx + 4) + of_nat (4 * j' + bgra_src c))"
      unfolding addr_f using Suc.IH [OF disj_rest _ j' Suc.prems(4)] Suc.prems(2) by simp
    also have "\<dots> = m (b + idx + of_nat (4 * j + bgra_src c))"
      unfolding addr_b [symmetric] using out by (rule bgra_pixel_frame)
    finally show ?thesis .
  qed
qed

text \<open>
  The loop ends after one pass per pixel that starts inside the extent, provided the
  index does not wrap before it reaches the bound.
\<close>

lemma bgra_loop_runs:
  assumes "4 dvd unat idx" and "unat idx \<le> 4 * ((unat n + 3) div 4)"
    and "4 * ((unat n + 3) div 4) < 2 ^ 32"
  shows "bgra_loop m f b n idx =
     Some (bgra_pixels m f b idx ((unat n + 3) div 4 - unat idx div 4))"
  using assms(1,2)
proof (induction "(unat n + 3) div 4 - unat idx div 4" arbitrary: m idx)
  case 0
  from "0.prems"(1) obtain c where c: "unat idx = 4 * c" by (auto simp: dvd_def)
  with "0.hyps" "0.prems"(2) have "unat idx = 4 * ((unat n + 3) div 4)" by simp
  then have "unat n \<le> unat idx" by presburger
  then have "\<not> idx < n" by (simp add: word_less_nat_alt)
  then show ?case using "0.hyps" [symmetric] by (subst bgra_loop.simps) simp
next
  case (Suc k)
  from Suc.prems(1) obtain c where c: "unat idx = 4 * c" by (auto simp: dvd_def)
  from Suc.hyps(2) c have room: "unat idx + 4 \<le> 4 * ((unat n + 3) div 4)" by simp
  then have "unat idx < unat n" by presburger
  then have lt: "idx < n" by (simp add: word_less_nat_alt)
  from room assms(3) have "unat idx + unat (4 :: u32) < 2 ^ 32" by simp
  then have step: "unat (idx + 4) = unat idx + 4"
    using unat_add_lem [of idx "4 :: u32"] by simp
  have k: "k = (unat n + 3) div 4 - unat (idx + 4) div 4" using Suc.hyps(2) step c by simp
  have dvd4: "4 dvd unat (idx + 4)" using step Suc.prems(1) by simp
  have le: "unat (idx + 4) \<le> 4 * ((unat n + 3) div 4)" using room step by simp
  have "bgra_loop m f b n idx = bgra_loop (bgra_pixel m f b idx) f b n (idx + 4)"
    using lt by (subst bgra_loop.simps) simp
  also have "\<dots> = Some (bgra_pixels (bgra_pixel m f b idx) f b (idx + 4) k)"
    unfolding k by (rule Suc.hyps(1) [OF k dvd4 le])
  finally show ?case using Suc.hyps(2) [symmetric] by simp
qed

section \<open>The operations, step by step\<close>

text \<open>Where the product does not overflow, the test of \<open>fbdev_init\<close> compares natural numbers.\<close>

lemma double_buffer_test_nat:
  fixes y l m :: u32
  assumes "unat y * unat l * 2 < 2 ^ 32"
  shows "(y * l * 2 \<le> m) = (unat y * unat l * 2 \<le> unat m)"
proof -
  define a where "a = unat y * unat l"
  from assms have "a * 2 < 2 ^ 32" by (simp add: a_def)
  then have "a < 2 ^ 32" by simp
  then have "unat y * unat l < 2 ^ 32" by (simp add: a_def)
  then have yl: "unat (y * l) = unat y * unat l"
    using unat_mult_lem [of y l] by simp
  with assms have "unat (y * l) * unat (2 :: u32) < 2 ^ 32" by simp
  then have "unat (y * l * 2) = unat (y * l) * unat (2 :: u32)"
    using unat_mult_lem [of "y * l" 2] by simp
  with yl show ?thesis by (simp add: word_le_nat_alt)
qed

lemma fbdev_blank_Inr:
  "fbi s = Some fb \<Longrightarrow>
   fbdev_blank ret blank s =
     Inr (s\<lparr>issued := issued s @ [FBIOBLANK (if blank then FB_BLANK_POWERDOWN else FB_BLANK_UNBLANK)],
            klog := (if ret < 0 then klog s @ [''ioctl(): blank''] else klog s)\<rparr>)"
  by (simp add: fbdev_blank_def fb_ioctl_def printk_def Let_def)

lemma set_displayed_framebuffer_single:
  "\<not> double_buffered s \<Longrightarrow> set_displayed_framebuffer ret n s = Inr s"
  by (simp add: set_displayed_framebuffer_def)

lemma set_displayed_framebuffer_double:
  assumes "double_buffered s" "fbi s = Some fb" "n \<le> 1"
  shows "set_displayed_framebuffer ret n s =
     Inr (s\<lparr>vi := (vi s)\<lparr>yres_virtual := height (fst (gr_framebuffer s)) * 2,
                          yoffset := n * height (fst (gr_framebuffer s)),
                          bits_per_pixel := pixel_bytes (fst (gr_framebuffer s)) * 8\<rparr>,
            issued := issued s @
              [FBIOPUT_VSCREENINFO
                ((vi s)\<lparr>yres_virtual := height (fst (gr_framebuffer s)) * 2,
                        yoffset := n * height (fst (gr_framebuffer s)),
                        bits_per_pixel := pixel_bytes (fst (gr_framebuffer s)) * 8\<rparr>)],
            klog := (if ret < 0 then klog s @ [''active fb swap failed''] else klog s),
            displayed_buffer := uint n\<rparr>)"
  using assms by (simp add: set_displayed_framebuffer_def fb_ioctl_def printk_def Let_def not_less)


lemma fbdev_init_finish_None:
  "surface_at s (gr_draw s) = None \<Longrightarrow> fbdev_init_finish e fb s = Inl NullDereference"
  by (simp add: fbdev_init_finish_def)

lemma fbdev_init_finish_Inr:
  assumes "surface_at s (gr_draw s) = Some d"
  shows "\<exists>s'. fbdev_init_finish e fb s = Inr (gr_draw s, s') \<and>
           mem s' = memset (mem s) (data d) 0 (unat (height d * row_bytes d)) \<and>
           gr_framebuffer s' = gr_framebuffer s \<and>
           double_buffered s' = double_buffered s \<and>
           gr_draw s' = gr_draw s \<and>
           displayed_buffer s' = (if double_buffered s then 0 else displayed_buffer s) \<and>
           fbi s' = Some fb \<and>
           surfaces s' = surfaces s \<and>
           blocks s' = blocks s \<and>
           registered_fb s' = registered_fb s \<and>
           num_registered_fb s' = num_registered_fb s"
proof (cases "double_buffered s")
  case True
  then show ?thesis
    using assms
    by (simp add: fbdev_init_finish_def Let_def
        set_displayed_framebuffer_double [where fb = fb] fbdev_blank_Inr [where fb = fb] printk_def)
next
  case False
  then show ?thesis
    using assms
    by (simp add: fbdev_init_finish_def Let_def
        set_displayed_framebuffer_single fbdev_blank_Inr [where fb = fb] printk_def)
qed

lemma block_available_cong:
  "blocks s' = blocks s \<Longrightarrow> registered_fb s' = registered_fb s \<Longrightarrow>
   block_available s' a n = block_available s a n"
  by (simp add: block_available_def device_regions_def)

lemma fbdev_init_single_Inr:
  assumes "fbdev_init_single e s = Inr (s2, allocated)"
  shows "\<exists>p. surface_alloc e = Some p \<and> p \<noteq> 0 \<and> block_available s p sizeof_GRSurface \<and>
           \<not> double_buffered s2 \<and> gr_draw s2 = Allocated p \<and>
           mem s2 = mem s \<and> gr_framebuffer s2 = gr_framebuffer s \<and>
           registered_fb s2 = registered_fb s \<and>
           (if allocated
            then \<exists>q. data_alloc e = Some q \<and> q \<noteq> 0 \<and>
                   block_available (s\<lparr>blocks := (p, sizeof_GRSurface) # blocks s\<rparr>) q
                     (unat (height (fst (gr_framebuffer s)) * row_bytes (fst (gr_framebuffer s)))) \<and>
                   surfaces s2 = (surfaces s)(p \<mapsto> (fst (gr_framebuffer s))\<lparr>data := q\<rparr>) \<and>
                   blocks s2 =
                     (q, unat (height (fst (gr_framebuffer s)) * row_bytes (fst (gr_framebuffer s))))
                     # (p, sizeof_GRSurface) # blocks s \<and>
                   klog s2 = klog s
            else surfaces s2 = (surfaces s)(p \<mapsto> (fst (gr_framebuffer s))\<lparr>data := 0\<rparr>) \<and>
                 blocks s2 = (p, sizeof_GRSurface) # blocks s \<and>
                 klog s2 = klog s @ [''failed to allocate in-memory surface''])"
  using assms
  by (auto simp: fbdev_init_single_def kmalloc_def Let_def printk_def
      block_available_def device_regions_def
      split: option.splits if_splits)


lemma fbdev_init_finish_elim:
  assumes "fbdev_init_finish e fb s = Inr (r, s')"
  shows "\<exists>d. surface_at s (gr_draw s) = Some d \<and> r = gr_draw s \<and>
           mem s' = memset (mem s) (data d) 0 (unat (height d * row_bytes d)) \<and>
           gr_framebuffer s' = gr_framebuffer s \<and>
           double_buffered s' = double_buffered s \<and>
           gr_draw s' = gr_draw s \<and>
           displayed_buffer s' = (if double_buffered s then 0 else displayed_buffer s) \<and>
           fbi s' = Some fb \<and>
           surfaces s' = surfaces s \<and>
           blocks s' = blocks s \<and>
           registered_fb s' = registered_fb s \<and>
           num_registered_fb s' = num_registered_fb s"
proof (cases "surface_at s (gr_draw s)")
  case None
  with assms show ?thesis by (simp add: fbdev_init_finish_None)
next
  case (Some d)
  from fbdev_init_finish_Inr [OF Some, of e fb] assms Some show ?thesis by auto
qed

lemma fbdev_init_clear_fields:
  "gr_framebuffer (fbdev_init_clear e fb s) =
     (\<lparr>width = xres (vi_reply e), height = yres (vi_reply e),
       row_bytes = line_length (fi_reply e),
       pixel_bytes = bits_per_pixel (vi_reply e) div 8,
       data = mmio_start (fb_fix fb)\<rparr>, snd (gr_framebuffer s))"
  "vi (fbdev_init_clear e fb s) = vi_reply e"
  "mem (fbdev_init_clear e fb s) =
     memset (memset (mem s) (mmio_start (fb_fix fb)) 0 (unat (smem_len (fb_fix fb))))
       (mmio_start (fb_fix fb)) 0 (unat (yres (vi_reply e) * line_length (fi_reply e)))"
  "blocks (fbdev_init_clear e fb s) = blocks s"
  "surfaces (fbdev_init_clear e fb s) = surfaces s"
  "registered_fb (fbdev_init_clear e fb s) = registered_fb s"
  "num_registered_fb (fbdev_init_clear e fb s) = num_registered_fb s"
  "double_buffered (fbdev_init_clear e fb s) = double_buffered s"
  "gr_draw (fbdev_init_clear e fb s) = gr_draw s"
  "displayed_buffer (fbdev_init_clear e fb s) = displayed_buffer s"
  "klog (fbdev_init_clear e fb s) = klog s @ [''fb0 reports (possibly inaccurate):'']"
  by (simp_all add: fbdev_init_clear_def fb_ioctl_def printk_def Let_def)

lemma fbdev_init_double_fields:
  "gr_framebuffer (fbdev_init_double s) =
     (fst (gr_framebuffer s),
      (fst (gr_framebuffer s))\<lparr>data := data (fst (gr_framebuffer s)) +
         height (fst (gr_framebuffer s)) * row_bytes (fst (gr_framebuffer s))\<rparr>)"
  "double_buffered (fbdev_init_double s)"
  "gr_draw (fbdev_init_double s) = Framebuffer 1"
  "mem (fbdev_init_double s) = mem s"
  "blocks (fbdev_init_double s) = blocks s"
  "surfaces (fbdev_init_double s) = surfaces s"
  "registered_fb (fbdev_init_double s) = registered_fb s"
  by (simp_all add: fbdev_init_double_def Let_def)

lemma fbdev_init_registered:
  assumes "num_registered_fb s \<noteq> 0" "registered_fb_at s 0 = Some fb"
  shows "fbdev_init e s =
     (if yres (vi_reply e) * line_length (fi_reply e) * 2 \<le> smem_len (fi_reply e)
      then fbdev_init_finish e fb (fbdev_init_double (fbdev_init_clear e fb s))
      else
        (case fbdev_init_single e (fbdev_init_clear e fb s) of
           Inl f \<Rightarrow> Inl f
         | Inr (s2, allocated) \<Rightarrow>
             if allocated then fbdev_init_finish e fb s2 else Inr (NULL_surface, s2)))"
  using assms by (simp add: fbdev_init_def Let_def fbdev_init_clear_fields)


lemma memset_zero_region: "i < n \<Longrightarrow> memset m p 0 n (p + of_nat i) = 0"
  by (simp add: memset_apply region_I)

lemma memset_keeps_zero: "m a = 0 \<Longrightarrow> memset m p 0 n a = 0"
  by (simp add: memset_apply)

lemma surface_at_cong:
  "gr_framebuffer s' = gr_framebuffer s \<Longrightarrow> surfaces s' = surfaces s \<Longrightarrow>
   surface_at s' p = surface_at s p"
  by (cases p) (simp_all add: surface_at_def)


subsection \<open>Initialisation on the small device\<close>

lemmas small_device_defs = boot_def panel_def small_panel_def answers_def panel_vi_def

lemma fbdev_init_panel:
  "\<exists>s'. fbdev_init (answers panel) (boot panel) = Inr (Framebuffer 1, s') \<and>
     double_buffered s' \<and> displayed_buffer s' = 0 \<and> fbi s' = Some panel \<and>
     gr_draw s' = Framebuffer 1 \<and>
     gr_framebuffer s' =
       (\<lparr>width = 2, height = 2, row_bytes = 8, pixel_bytes = 4, data = 0x1000\<rparr>,
        \<lparr>width = 2, height = 2, row_bytes = 8, pixel_bytes = 4, data = 0x1010\<rparr>)"
proof -
  let ?s = "fbdev_init_double (fbdev_init_clear (answers panel) panel (boot panel))"
  have reg: "num_registered_fb (boot panel) \<noteq> 0" "registered_fb_at (boot panel) 0 = Some panel"
    by (simp_all add: boot_def registered_fb_at_def)
  have at: "surface_at ?s (gr_draw ?s) = Some (snd (gr_framebuffer ?s))"
    by (simp add: surface_at_def fbdev_init_double_fields)
  have "fbdev_init (answers panel) (boot panel) = fbdev_init_finish (answers panel) panel ?s"
    unfolding fbdev_init_registered [OF reg] by (simp add: answers_def panel_def panel_vi_def)
  with fbdev_init_finish_Inr [OF at, of "answers panel" panel] show ?thesis
    by (auto simp: fbdev_init_double_fields fbdev_init_clear_fields answers_def panel_def
        panel_vi_def)
qed

lemma fbdev_init_small_panel:
  "\<exists>s'. fbdev_init (answers small_panel) (boot small_panel) = Inr (Allocated 0x2000, s') \<and>
     \<not> double_buffered s' \<and> gr_draw s' = Allocated 0x2000 \<and>
     fbi s' = Some small_panel \<and>
     fst (gr_framebuffer s') =
       \<lparr>width = 2, height = 2, row_bytes = 8, pixel_bytes = 4, data = 0x1000\<rparr> \<and>
     surfaces s' 0x2000 =
       Some \<lparr>width = 2, height = 2, row_bytes = 8, pixel_bytes = 4, data = 0x3000\<rparr> \<and>
     blocks s' = [(0x3000, 16), (0x2000, 20)]"
proof -
  let ?c = "fbdev_init_clear (answers small_panel) small_panel (boot small_panel)"
  let ?d = "\<lparr>width = 2, height = 2, row_bytes = 8, pixel_bytes = 4, data = 0x3000 :: addr\<rparr>"
  let ?s2 = "?c\<lparr>double_buffered := False,
                 blocks := [(0x3000, 16), (0x2000, sizeof_GRSurface)],
                 gr_draw := Allocated 0x2000,
                 surfaces := (surfaces ?c)(0x2000 \<mapsto> ?d)\<rparr>"
  have reg: "num_registered_fb (boot small_panel) \<noteq> 0"
    "registered_fb_at (boot small_panel) 0 = Some small_panel"
    by (simp_all add: boot_def registered_fb_at_def)
  have single: "fbdev_init_single (answers small_panel) ?c = Inr (?s2, True)"
    by (simp add: fbdev_init_single_def kmalloc_def block_available_def device_regions_def
        regions_disjoint_def sizeof_GRSurface_def List.map_filter_def
        fbdev_init_clear_fields small_device_defs Let_def)
  have at: "surface_at ?s2 (gr_draw ?s2) = Some ?d"
    by (simp add: surface_at_def)
  have "fbdev_init (answers small_panel) (boot small_panel) =
      fbdev_init_finish (answers small_panel) small_panel ?s2"
    unfolding fbdev_init_registered [OF reg] single
    by (simp add: answers_def small_panel_def panel_vi_def)
  with fbdev_init_finish_Inr [OF at, of "answers small_panel" small_panel] show ?thesis
    by (auto simp: sizeof_GRSurface_def fbdev_init_clear_fields answers_def small_panel_def
        panel_vi_def)
qed


subsection \<open>Flipping under hardware double buffering\<close>

lemma fbdev_flip_double_step:
  assumes db: "double_buffered s" and fb: "fbi s = Some fb"
    and idx: "displayed_buffer s = 0 \<or> displayed_buffer s = 1"
  shows "fbdev_flip recovery_bgra ret s =
     Some (Inr (Framebuffer (displayed_buffer s),
       s\<lparr>gr_draw := Framebuffer (displayed_buffer s),
          vi := (vi s)\<lparr>yres_virtual := height (fst (gr_framebuffer s)) * 2,
                        yoffset := word_of_int (1 - displayed_buffer s) *
                          height (fst (gr_framebuffer s)),
                        bits_per_pixel := pixel_bytes (fst (gr_framebuffer s)) * 8\<rparr>,
          issued := issued s @
            [FBIOPUT_VSCREENINFO
              ((vi s)\<lparr>yres_virtual := height (fst (gr_framebuffer s)) * 2,
                      yoffset := word_of_int (1 - displayed_buffer s) *
                        height (fst (gr_framebuffer s)),
                      bits_per_pixel := pixel_bytes (fst (gr_framebuffer s)) * 8\<rparr>)],
          klog := (if ret < 0 then klog s @ [''active fb swap failed''] else klog s),
          displayed_buffer := 1 - displayed_buffer s\<rparr>))"
proof -
  let ?s1 = "s\<lparr>gr_draw := Framebuffer (displayed_buffer s)\<rparr>"
  let ?n = "word_of_int (1 - displayed_buffer s) :: u32"
  from idx have n: "?n \<le> 1" "uint ?n = 1 - displayed_buffer s" by auto
  have "set_displayed_framebuffer ret ?n ?s1 = Inr (?s1
      \<lparr>vi := (vi ?s1)\<lparr>yres_virtual := height (fst (gr_framebuffer ?s1)) * 2,
                        yoffset := ?n * height (fst (gr_framebuffer ?s1)),
                        bits_per_pixel := pixel_bytes (fst (gr_framebuffer ?s1)) * 8\<rparr>,
       issued := issued ?s1 @
         [FBIOPUT_VSCREENINFO
           ((vi ?s1)\<lparr>yres_virtual := height (fst (gr_framebuffer ?s1)) * 2,
                      yoffset := ?n * height (fst (gr_framebuffer ?s1)),
                      bits_per_pixel := pixel_bytes (fst (gr_framebuffer ?s1)) * 8\<rparr>)],
       klog := (if ret < 0 then klog ?s1 @ [''active fb swap failed''] else klog ?s1),
       displayed_buffer := uint ?n\<rparr>)"
    by (rule set_displayed_framebuffer_double [where fb = fb, OF _ _ n(1)]) (simp_all add: db fb)
  then show ?thesis
    using db n(2) by (simp add: fbdev_flip_def Let_def)
qed

lemma fbdev_flip_double:
  assumes "hw_ready fb0 s"
  shows "\<exists>s'. fbdev_flip recovery_bgra ret s = Some (Inr (Framebuffer (displayed_buffer s), s')) \<and>
           hw_ready fb0 s' \<and>
           gr_draw s' = Framebuffer (displayed_buffer s) \<and>
           displayed_buffer s' = 1 - displayed_buffer s \<and>
           vi s' = (vi s)\<lparr>yres_virtual := height fb0 * 2,
                          yoffset := word_of_int (1 - displayed_buffer s) * height fb0,
                          bits_per_pixel := pixel_bytes fb0 * 8\<rparr> \<and>
           issued s' = issued s @ [FBIOPUT_VSCREENINFO (vi s')] \<and>
           klog s' = (if ret < 0 then klog s @ [''active fb swap failed''] else klog s) \<and>
           mem s' = mem s \<and> gr_framebuffer s' = gr_framebuffer s"
proof -
  from assms obtain fb where fb: "fbi s = Some fb" and db: "double_buffered s"
    and fb0: "fst (gr_framebuffer s) = fb0"
    and idx: "displayed_buffer s = 0 \<or> displayed_buffer s = 1"
    by (auto simp: hw_ready_def)
  show ?thesis
    unfolding fbdev_flip_double_step [OF db fb idx]
    using db fb fb0 idx by (auto simp: hw_ready_def)
qed

lemma flips_double:
  assumes "hw_ready fb0 s"
  shows "\<exists>s'. flips recovery_bgra rets s = Some (Inr s') \<and> hw_ready fb0 s' \<and>
           displayed_buffer s' = (displayed_buffer s + int (length rets)) mod 2"
  using assms
proof (induction rets arbitrary: s)
  case Nil
  then show ?case by (auto simp: hw_ready_def)
next
  case (Cons ret rets)
  from fbdev_flip_double [OF Cons.prems, of recovery_bgra ret] obtain s1 where
    flip: "fbdev_flip recovery_bgra ret s = Some (Inr (Framebuffer (displayed_buffer s), s1))"
    and ready: "hw_ready fb0 s1" and idx: "displayed_buffer s1 = 1 - displayed_buffer s"
    by blast
  from Cons.IH [OF ready] obtain s' where
    "flips recovery_bgra rets s1 = Some (Inr s')" "hw_ready fb0 s'"
    "displayed_buffer s' = (displayed_buffer s1 + int (length rets)) mod 2"
    by blast
  moreover have "(1 - displayed_buffer s + int (length rets)) mod 2 =
      (displayed_buffer s + int (length (ret # rets))) mod 2"
    using Cons.prems by (auto simp: hw_ready_def)
  ultimately show ?case using flip idx by auto
qed

lemma fbdev_init_hw_ready:
  assumes "fbdev_init e s = Inr (r, s')" "r \<noteq> NULL_surface" "double_buffered s'"
  shows "hw_ready (fst (gr_framebuffer s')) s' \<and> displayed_buffer s' = 0 \<and> r = Framebuffer 1"
proof -
  from assms have num: "num_registered_fb s \<noteq> 0"
    by (auto simp: fbdev_init_def)
  with assms obtain fb where fb: "registered_fb_at s 0 = Some fb"
    by (auto simp: fbdev_init_def split: option.splits)
  let ?c = "fbdev_init_clear e fb s"
  show ?thesis
  proof (cases "yres (vi_reply e) * line_length (fi_reply e) * 2 \<le> smem_len (fi_reply e)")
    case True
    with assms(1) have fin: "fbdev_init_finish e fb (fbdev_init_double ?c) = Inr (r, s')"
      by (simp add: fbdev_init_registered [OF num fb])
    from fbdev_init_finish_elim [OF fin] show ?thesis
      by (auto simp: hw_ready_def fbdev_init_double_fields)
  next
    case False
    with assms(1,2) obtain s2 where
      single: "fbdev_init_single e ?c = Inr (s2, True)"
      and fin: "fbdev_init_finish e fb s2 = Inr (r, s')"
      by (auto simp: fbdev_init_registered [OF num fb] split: sum.splits if_splits)
    from fbdev_init_single_Inr [OF single] have "\<not> double_buffered s2" by blast
    with fbdev_init_finish_elim [OF fin] assms(3) show ?thesis by auto
  qed
qed


subsection \<open>Initialisation without double buffering\<close>

lemma device_regions_member:
  assumes "registered_fb_at s 0 = Some fb"
  shows "(mmio_start (fb_fix fb), unat (smem_len (fb_fix fb))) \<in> set (device_regions s)"
proof -
  from assms have "0 < length (registered_fb s)" "registered_fb s ! 0 = Some fb"
    by (auto simp: registered_fb_at_def split: if_splits)
  then have "Some fb \<in> set (registered_fb s)"
    using nth_mem [of 0 "registered_fb s"] by simp
  then have "fb \<in> set (List.map_filter id (registered_fb s))"
    by (force simp: List.map_filter_def)
  then show ?thesis by (auto simp: device_regions_def)
qed

lemma block_available_device:
  assumes "block_available s a n" "registered_fb_at s 0 = Some fb"
  shows "regions_disjoint a n (mmio_start (fb_fix fb)) (unat (smem_len (fb_fix fb)))"
proof -
  from assms(1) have "\<forall>r \<in> set (device_regions s). regions_disjoint a n (fst r) (snd r)"
    by (simp add: block_available_def list_all_iff)
  with device_regions_member [OF assms(2)] show ?thesis by fastforce
qed

lemma fbdev_init_software:
  assumes "fbdev_init e s = Inr (r, s')" "r \<noteq> NULL_surface" "\<not> double_buffered s'"
  shows "\<exists>fb p q. registered_fb_at s 0 = Some fb \<and> r = Allocated p \<and>
           gr_draw s' = Allocated p \<and>
           fst (gr_framebuffer s') =
             \<lparr>width = xres (vi_reply e), height = yres (vi_reply e),
              row_bytes = line_length (fi_reply e),
              pixel_bytes = bits_per_pixel (vi_reply e) div 8,
              data = mmio_start (fb_fix fb)\<rparr> \<and>
           surfaces s' = (surfaces s)(p \<mapsto> (fst (gr_framebuffer s'))\<lparr>data := q\<rparr>) \<and>
           surface_alloc e = Some p \<and> data_alloc e = Some q \<and> p \<noteq> 0 \<and> q \<noteq> 0 \<and>
           block_available s p sizeof_GRSurface \<and>
           block_available (s\<lparr>blocks := (p, sizeof_GRSurface) # blocks s\<rparr>) q
             (unat (yres (vi_reply e) * line_length (fi_reply e))) \<and>
           blocks s' =
             (q, unat (yres (vi_reply e) * line_length (fi_reply e)))
             # (p, sizeof_GRSurface) # blocks s \<and>
           fbi s' = Some fb \<and> registered_fb s' = registered_fb s"
proof -
  from assms have num: "num_registered_fb s \<noteq> 0"
    by (auto simp: fbdev_init_def)
  with assms obtain fb where fb: "registered_fb_at s 0 = Some fb"
    by (auto simp: fbdev_init_def split: option.splits)
  let ?c = "fbdev_init_clear e fb s"
  have double: False
    if "yres (vi_reply e) * line_length (fi_reply e) * 2 \<le> smem_len (fi_reply e)"
  proof -
    from that assms(1) have "fbdev_init_finish e fb (fbdev_init_double ?c) = Inr (r, s')"
      by (simp add: fbdev_init_registered [OF num fb])
    from fbdev_init_finish_elim [OF this] assms(3) show False
      by (simp add: fbdev_init_double_fields)
  qed
  with assms(1,2) obtain s2 where
    single: "fbdev_init_single e ?c = Inr (s2, True)"
    and fin: "fbdev_init_finish e fb s2 = Inr (r, s')"
    by (auto simp: fbdev_init_registered [OF num fb] split: sum.splits if_splits)
  let ?n = "unat (yres (vi_reply e) * line_length (fi_reply e))"
  from fbdev_init_single_Inr [OF single] obtain p q where
    s2: "surface_alloc e = Some p" "p \<noteq> 0" "block_available ?c p sizeof_GRSurface"
      "gr_draw s2 = Allocated p" "gr_framebuffer s2 = gr_framebuffer ?c"
      "registered_fb s2 = registered_fb ?c"
      "data_alloc e = Some q" "q \<noteq> 0"
      "block_available (?c\<lparr>blocks := (p, sizeof_GRSurface) # blocks ?c\<rparr>) q ?n"
      "surfaces s2 = (surfaces ?c)(p \<mapsto> (fst (gr_framebuffer ?c))\<lparr>data := q\<rparr>)"
      "blocks s2 = (q, ?n) # (p, sizeof_GRSurface) # blocks ?c"
    by (auto simp: fbdev_init_clear_fields)
  have av1: "block_available s p sizeof_GRSurface"
    using s2(3) block_available_cong [of ?c s p sizeof_GRSurface]
    by (simp add: fbdev_init_clear_fields)
  have av2: "block_available (s\<lparr>blocks := (p, sizeof_GRSurface) # blocks s\<rparr>) q ?n"
    using s2(9)
      block_available_cong [of "?c\<lparr>blocks := (p, sizeof_GRSurface) # blocks ?c\<rparr>"
        "s\<lparr>blocks := (p, sizeof_GRSurface) # blocks s\<rparr>" q ?n]
    by (simp add: fbdev_init_clear_fields)
  from fbdev_init_finish_elim [OF fin] s2 av1 av2 fb show ?thesis
    by (auto simp: fbdev_init_clear_fields)
qed

lemma fbdev_init_single_allocated:
  assumes "surface_alloc e = Some p" "block_available s p sizeof_GRSurface"
    and "data_alloc e = Some q"
    and "block_available (s\<lparr>blocks := (p, sizeof_GRSurface) # blocks s\<rparr>) q
           (unat (height (fst (gr_framebuffer s)) * row_bytes (fst (gr_framebuffer s))))"
  shows "\<exists>s2. fbdev_init_single e s = Inr (s2, True) \<and> gr_draw s2 = Allocated p \<and>
           surfaces s2 p = Some ((fst (gr_framebuffer s))\<lparr>data := q\<rparr>)"
proof -
  let ?n = "unat (height (fst (gr_framebuffer s)) * row_bytes (fst (gr_framebuffer s)))"
  let ?s1 = "s\<lparr>double_buffered := False\<rparr>"
  have k1: "kmalloc (Some p) sizeof_GRSurface ?s1 =
      (p, ?s1\<lparr>blocks := (p, sizeof_GRSurface) # blocks ?s1\<rparr>)"
    using assms(2) block_available_cong [of ?s1 s p sizeof_GRSurface]
    by (simp add: kmalloc_def)
  let ?s4 = "s\<lparr>double_buffered := False, blocks := (p, sizeof_GRSurface) # blocks s,
               gr_draw := Allocated p,
               surfaces := (surfaces s)(p \<mapsto> fst (gr_framebuffer s))\<rparr>"
  have k2: "kmalloc (Some q) ?n ?s4 = (q, ?s4\<lparr>blocks := (q, ?n) # blocks ?s4\<rparr>)"
    using assms(4)
      block_available_cong [of ?s4 "s\<lparr>blocks := (p, sizeof_GRSurface) # blocks s\<rparr>" q ?n]
    by (simp add: kmalloc_def)
  from assms(2) have p: "p \<noteq> 0" by (simp add: block_available_def)
  from assms(4) have q: "q \<noteq> 0" by (simp add: block_available_def)
  show ?thesis
    using k1 k2 p q by (simp add: fbdev_init_single_def assms(1,3) Let_def)
qed

lemma fbdev_init_software_exit_ready:
  assumes "fbdev_init e s = Inr (r, s')" "r \<noteq> NULL_surface" "\<not> double_buffered s'"
  shows "\<exists>p d. gr_draw s' = Allocated p \<and> surfaces s' p = Some d \<and>
           data d \<noteq> 0 \<and> data d \<noteq> p \<and> p \<noteq> 0 \<and>
           p \<in> fst ` set (blocks s') \<and> data d \<in> fst ` set (blocks s')"
proof -
  from fbdev_init_software [OF assms] obtain p q where
    st: "gr_draw s' = Allocated p"
      "surfaces s' = (surfaces s)(p \<mapsto> (fst (gr_framebuffer s'))\<lparr>data := q\<rparr>)"
      "p \<noteq> 0" "q \<noteq> 0"
      "block_available (s\<lparr>blocks := (p, sizeof_GRSurface) # blocks s\<rparr>) q
         (unat (yres (vi_reply e) * line_length (fi_reply e)))"
      "blocks s' =
         (q, unat (yres (vi_reply e) * line_length (fi_reply e)))
         # (p, sizeof_GRSurface) # blocks s"
    by auto
  from st(5) have "q \<noteq> p" by (auto simp: block_available_def)
  with st show ?thesis
    by (intro exI [of _ p] exI [of _ "(fst (gr_framebuffer s'))\<lparr>data := q\<rparr>"]) simp
qed

subsection \<open>Flipping without double buffering\<close>

lemma fbdev_flip_direct:
  assumes "\<not> double_buffered s" "surface_at s (gr_draw s) = Some d"
  shows "fbdev_flip False ret s =
     Some (Inr (gr_draw s,
       s\<lparr>mem := memcpy (mem s) (data (fst (gr_framebuffer s))) (data d)
                   (unat (height d * row_bytes d))\<rparr>))"
  using assms by (simp add: fbdev_flip_def)

lemma fbdev_flip_bgra_passes:
  assumes "\<not> double_buffered s" "surface_at s (gr_draw s) = Some d"
    and "4 * ((unat (height d * row_bytes d) + 3) div 4) < 2 ^ 32"
  shows "fbdev_flip True ret s =
     Some (Inr (gr_draw s,
       s\<lparr>mem := bgra_pixels (mem s) (data (fst (gr_framebuffer s))) (data d) 0
                   ((unat (height d * row_bytes d) + 3) div 4)\<rparr>))"
proof -
  have "bgra_loop (mem s) (data (fst (gr_framebuffer s))) (data d) (height d * row_bytes d) 0 =
      Some (bgra_pixels (mem s) (data (fst (gr_framebuffer s))) (data d) 0
        ((unat (height d * row_bytes d) + 3) div 4 - unat (0 :: u32) div 4))"
    by (rule bgra_loop_runs [OF _ _ assms(3)]) simp_all
  then show ?thesis using assms(1,2) by (simp add: fbdev_flip_def)
qed

lemma fbdev_flip_bgra:
  assumes "\<not> double_buffered s" "surface_at s (gr_draw s) = Some d"
    and "4 dvd unat (height d * row_bytes d)"
  shows "fbdev_flip True ret s =
     Some (Inr (gr_draw s,
       s\<lparr>mem := bgra_pixels (mem s) (data (fst (gr_framebuffer s))) (data d) 0
                   (unat (height d * row_bytes d) div 4)\<rparr>))"
proof -
  let ?n = "unat (height d * row_bytes d)"
  from assms(3) have k: "(?n + 3) div 4 = ?n div 4" by presburger
  from assms(3) have "4 * ((?n + 3) div 4) = ?n" by presburger
  moreover have "?n < 2 ^ 32"
    using unsigned_less [of "height d * row_bytes d", where 'a = nat] by simp
  ultimately have "4 * ((?n + 3) div 4) < 2 ^ 32" by presburger
  from fbdev_flip_bgra_passes [OF assms(1,2) this] show ?thesis by (simp only: k)
qed

lemma surface_at_mem [simp]: "surface_at (s\<lparr>mem := m\<rparr>) p = surface_at s p"
  by (cases p) (simp_all add: surface_at_def)

text \<open>
  After \<open>fbdev_init\<close> without double buffering, the drawing buffer shares no address
  with any run of bytes at \<open>gr_framebuffer[0].data\<close> that stays inside the device's
  memory.
\<close>

lemma fbdev_init_software_flip_ready:
  assumes "fbdev_init e s = Inr (r, s')" "r \<noteq> NULL_surface" "\<not> double_buffered s'"
    and "registered_fb_at s 0 = Some fb"
    and "w \<le> unat (smem_len (fb_fix fb))"
  shows "\<exists>d. surface_at s' (gr_draw s') = Some d \<and>
           regions_disjoint (data (fst (gr_framebuffer s'))) w
             (data d) (unat (height d * row_bytes d))"
proof -
  let ?n = "unat (yres (vi_reply e) * line_length (fi_reply e))"
  from fbdev_init_software [OF assms(1-3)] assms(4) obtain p q where
    st: "gr_draw s' = Allocated p"
      "fst (gr_framebuffer s') =
         \<lparr>width = xres (vi_reply e), height = yres (vi_reply e),
          row_bytes = line_length (fi_reply e),
          pixel_bytes = bits_per_pixel (vi_reply e) div 8,
          data = mmio_start (fb_fix fb)\<rparr>"
      "surfaces s' = (surfaces s)(p \<mapsto> (fst (gr_framebuffer s'))\<lparr>data := q\<rparr>)"
      "block_available (s\<lparr>blocks := (p, sizeof_GRSurface) # blocks s\<rparr>) q ?n"
    by auto
  have reg: "registered_fb_at (s\<lparr>blocks := (p, sizeof_GRSurface) # blocks s\<rparr>) 0 = Some fb"
    using assms(4) by (simp add: registered_fb_at_def split: if_splits)
  from block_available_device [OF st(4) reg]
  have "regions_disjoint q ?n (mmio_start (fb_fix fb)) (unat (smem_len (fb_fix fb)))" .
  then have "regions_disjoint q ?n (mmio_start (fb_fix fb)) w"
    by (rule regions_disjoint_shrink [OF _ le_refl assms(5)])
  then have "regions_disjoint (mmio_start (fb_fix fb)) w q ?n"
    by (rule regions_disjoint_sym)
  with st(1-3) show ?thesis
    by (intro exI [of _ "(fst (gr_framebuffer s'))\<lparr>data := q\<rparr>"]) (simp add: surface_at_def)
qed

text \<open>A row stride of whole 4-byte pixels makes the extent a whole number of pixels.\<close>

lemma extent_whole_pixels:
  fixes y l :: u32
  assumes "4 dvd unat l"
  shows "4 dvd unat (y * l)"
proof -
  have "unat (y * l) = (unat y * unat l) mod 2 ^ 32"
    by (simp add: unat_word_ariths)
  moreover have "(4 :: nat) dvd 2 ^ 32" by simp
  moreover from assms have "4 dvd unat y * unat l" by simp
  ultimately show ?thesis by (simp add: dvd_mod)
qed

section \<open>The claims\<close>

text \<open>
  C1. With a device registered, \<open>fbdev_init\<close> selects hardware double buffering exactly
  when \<open>yres * line_length * 2 \<le> smem_len\<close>, the product being the 32-bit unsigned one
  the code computes on the values the device reported. In that case it returns, the two
  descriptors of \<open>gr_framebuffer\<close> have the same width, height, row stride and pixel size,
  the data pointer of buffer 1 is that of buffer 0 plus \<open>height * row_bytes\<close>, and the
  surface returned (and kept in \<open>gr_draw\<close>) is buffer 1. When the comparison fails, no
  return of \<open>fbdev_init\<close> leaves \<open>double_buffered\<close> set. For every geometry whose
  product \<open>yres * line_length * 2\<close> fits in 32 bits, the comparison is the one between
  the natural numbers.
\<close>

theorem fbdev_init_double_buffering:
  assumes "num_registered_fb s \<noteq> 0" and "registered_fb_at s 0 = Some fb"
  shows "(yres (vi_reply e) * line_length (fi_reply e) * 2 \<le> smem_len (fi_reply e) \<longrightarrow>
           (\<exists>s'. fbdev_init e s = Inr (Framebuffer 1, s') \<and> double_buffered s' \<and>
              gr_draw s' = Framebuffer 1 \<and>
              fst (gr_framebuffer s') =
                \<lparr>width = xres (vi_reply e), height = yres (vi_reply e),
                 row_bytes = line_length (fi_reply e),
                 pixel_bytes = bits_per_pixel (vi_reply e) div 8,
                 data = mmio_start (fb_fix fb)\<rparr> \<and>
              width (snd (gr_framebuffer s')) = width (fst (gr_framebuffer s')) \<and>
              height (snd (gr_framebuffer s')) = height (fst (gr_framebuffer s')) \<and>
              row_bytes (snd (gr_framebuffer s')) = row_bytes (fst (gr_framebuffer s')) \<and>
              pixel_bytes (snd (gr_framebuffer s')) = pixel_bytes (fst (gr_framebuffer s')) \<and>
              data (snd (gr_framebuffer s')) =
                data (fst (gr_framebuffer s')) +
                height (fst (gr_framebuffer s')) * row_bytes (fst (gr_framebuffer s')))) \<and>
         (\<not> yres (vi_reply e) * line_length (fi_reply e) * 2 \<le> smem_len (fi_reply e) \<longrightarrow>
           (\<forall>r s'. fbdev_init e s = Inr (r, s') \<longrightarrow> \<not> double_buffered s')) \<and>
         (unat (yres (vi_reply e)) * unat (line_length (fi_reply e)) * 2 < 2 ^ 32 \<longrightarrow>
           (yres (vi_reply e) * line_length (fi_reply e) * 2 \<le> smem_len (fi_reply e)) =
           (unat (yres (vi_reply e)) * unat (line_length (fi_reply e)) * 2
              \<le> unat (smem_len (fi_reply e))))"
proof (intro conjI impI allI)
  assume fits: "yres (vi_reply e) * line_length (fi_reply e) * 2 \<le> smem_len (fi_reply e)"
  let ?s = "fbdev_init_double (fbdev_init_clear e fb s)"
  have at: "surface_at ?s (gr_draw ?s) = Some (snd (gr_framebuffer ?s))"
    by (simp add: surface_at_def fbdev_init_double_fields)
  from fbdev_init_finish_Inr [OF at, of e fb] obtain s' where
    "fbdev_init_finish e fb ?s = Inr (gr_draw ?s, s')"
    "gr_framebuffer s' = gr_framebuffer ?s" "double_buffered s' = double_buffered ?s"
    "gr_draw s' = gr_draw ?s"
    by blast
  then show "\<exists>s'. fbdev_init e s = Inr (Framebuffer 1, s') \<and> double_buffered s' \<and>
      gr_draw s' = Framebuffer 1 \<and>
      fst (gr_framebuffer s') =
        \<lparr>width = xres (vi_reply e), height = yres (vi_reply e),
         row_bytes = line_length (fi_reply e),
         pixel_bytes = bits_per_pixel (vi_reply e) div 8,
         data = mmio_start (fb_fix fb)\<rparr> \<and>
      width (snd (gr_framebuffer s')) = width (fst (gr_framebuffer s')) \<and>
      height (snd (gr_framebuffer s')) = height (fst (gr_framebuffer s')) \<and>
      row_bytes (snd (gr_framebuffer s')) = row_bytes (fst (gr_framebuffer s')) \<and>
      pixel_bytes (snd (gr_framebuffer s')) = pixel_bytes (fst (gr_framebuffer s')) \<and>
      data (snd (gr_framebuffer s')) =
        data (fst (gr_framebuffer s')) +
        height (fst (gr_framebuffer s')) * row_bytes (fst (gr_framebuffer s'))"
    using fits
    by (simp add: fbdev_init_registered [OF assms] fbdev_init_double_fields
        fbdev_init_clear_fields)
next
  fix r s'
  assume small: "\<not> yres (vi_reply e) * line_length (fi_reply e) * 2 \<le> smem_len (fi_reply e)"
    and ret: "fbdev_init e s = Inr (r, s')"
  from ret small obtain s2 allocated where
    single: "fbdev_init_single e (fbdev_init_clear e fb s) = Inr (s2, allocated)"
    and rest: "(if allocated then fbdev_init_finish e fb s2 else Inr (NULL_surface, s2)) = Inr (r, s')"
    by (auto simp: fbdev_init_registered [OF assms] split: sum.splits)
  from fbdev_init_single_Inr [OF single] have "\<not> double_buffered s2" by blast
  with rest show "\<not> double_buffered s'"
    by (cases allocated) (auto dest: fbdev_init_finish_elim)
next
  assume "unat (yres (vi_reply e)) * unat (line_length (fi_reply e)) * 2 < 2 ^ 32"
  then show "(yres (vi_reply e) * line_length (fi_reply e) * 2 \<le> smem_len (fi_reply e)) =
      (unat (yres (vi_reply e)) * unat (line_length (fi_reply e)) * 2
         \<le> unat (smem_len (fi_reply e)))"
    by (rule double_buffer_test_nat)
qed

theorem fbdev_init_double_buffering_witness:
  "\<exists>s'. fbdev_init (answers panel) (boot panel) = Inr (Framebuffer 1, s') \<and>
     double_buffered s' \<and> data (snd (gr_framebuffer s')) = 0x1010"
  using fbdev_init_double_buffering [of "boot panel" panel "answers panel"]
  by (auto simp: boot_def panel_def answers_def panel_vi_def registered_fb_at_def)

text \<open>
  C2. Let \<open>fbdev_init\<close> have returned a surface and selected double buffering; the
  displayed index is then 0 and the surface returned is buffer 1. After any sequence
  of flips, whatever the device answered, the displayed index is the number of flips
  modulo 2 (0, 1, 0, ...) and \<open>gr_draw\<close> is the other buffer. The next flip returns, and
  sets \<open>gr_draw\<close> to, the buffer at the displayed index before the flip; it sends one
  \<^verbatim>\<open>FBIOPUT_VSCREENINFO\<close> command whose virtual vertical resolution is \<open>2 * height\<close>,
  whose vertical offset is \<open>(1 - displayed index) * height\<close> and whose bits per pixel
  are \<open>pixel_bytes * 8\<close>; and it makes the displayed index \<open>1 - displayed index\<close>, so the
  surface returned is the complement of the buffer displayed afterwards.
\<close>

theorem fbdev_flip_alternates:
  assumes "fbdev_init e s0 = Inr (r0, s1)" and "r0 \<noteq> NULL_surface" and "double_buffered s1"
  shows "displayed_buffer s1 = 0 \<and> r0 = Framebuffer 1 \<and>
         (\<exists>s. flips recovery_bgra rets s1 = Some (Inr s) \<and>
            displayed_buffer s = int (length rets) mod 2 \<and>
            gr_draw s = Framebuffer (1 - displayed_buffer s) \<and>
            (\<exists>s'. fbdev_flip recovery_bgra ret s =
                    Some (Inr (Framebuffer (displayed_buffer s), s')) \<and>
               gr_draw s' = Framebuffer (displayed_buffer s) \<and>
               displayed_buffer s' = 1 - displayed_buffer s \<and>
               vi s' = (vi s)\<lparr>yres_virtual := 2 * height (fst (gr_framebuffer s1)),
                                yoffset := word_of_int (1 - displayed_buffer s) *
                                  height (fst (gr_framebuffer s1)),
                                bits_per_pixel := pixel_bytes (fst (gr_framebuffer s1)) * 8\<rparr> \<and>
               issued s' = issued s @ [FBIOPUT_VSCREENINFO (vi s')]))"
proof -
  let ?fb0 = "fst (gr_framebuffer s1)"
  from fbdev_init_hw_ready [OF assms] have ready: "hw_ready ?fb0 s1"
    and start: "displayed_buffer s1 = 0" "r0 = Framebuffer 1"
    by simp_all
  from flips_double [OF ready, of recovery_bgra rets] start(1) obtain s where
    run: "flips recovery_bgra rets s1 = Some (Inr s)" and s: "hw_ready ?fb0 s"
    and idx: "displayed_buffer s = int (length rets) mod 2"
    by auto
  from s have draw: "gr_draw s = Framebuffer (1 - displayed_buffer s)"
    by (simp add: hw_ready_def)
  from fbdev_flip_double [OF s, of recovery_bgra ret] obtain s' where
    "fbdev_flip recovery_bgra ret s = Some (Inr (Framebuffer (displayed_buffer s), s'))"
    "gr_draw s' = Framebuffer (displayed_buffer s)"
    "displayed_buffer s' = 1 - displayed_buffer s"
    "vi s' = (vi s)\<lparr>yres_virtual := height ?fb0 * 2,
                     yoffset := word_of_int (1 - displayed_buffer s) * height ?fb0,
                     bits_per_pixel := pixel_bytes ?fb0 * 8\<rparr>"
    "issued s' = issued s @ [FBIOPUT_VSCREENINFO (vi s')]"
    by blast
  with start run idx draw show ?thesis
    by (simp add: mult.commute)
qed

theorem fbdev_flip_alternates_witness:
  "\<exists>s1 s2 s3.
     fbdev_init (answers panel) (boot panel) = Inr (Framebuffer 1, s1) \<and>
     displayed_buffer s1 = 0 \<and>
     fbdev_flip False 0 s1 = Some (Inr (Framebuffer 0, s2)) \<and>
     displayed_buffer s2 = 1 \<and> yres_virtual (vi s2) = 4 \<and> yoffset (vi s2) = 2 \<and>
     bits_per_pixel (vi s2) = 32 \<and>
     fbdev_flip False (- 1) s2 = Some (Inr (Framebuffer 1, s3)) \<and>
     displayed_buffer s3 = 0 \<and> yoffset (vi s3) = 0"
proof -
  from fbdev_init_panel obtain s1 where
    init: "fbdev_init (answers panel) (boot panel) = Inr (Framebuffer 1, s1)"
    and db: "double_buffered s1"
    and fbs: "gr_framebuffer s1 =
       (\<lparr>width = 2, height = 2, row_bytes = 8, pixel_bytes = 4, data = 0x1000\<rparr>,
        \<lparr>width = 2, height = 2, row_bytes = 8, pixel_bytes = 4, data = 0x1010\<rparr>)"
    by blast
  have nn: "Framebuffer 1 \<noteq> NULL_surface" by simp
  from fbdev_flip_alternates [OF init nn db, of False "[]" 0] fbs obtain s2 where
    start: "displayed_buffer s1 = 0"
    and flip1: "fbdev_flip False 0 s1 = Some (Inr (Framebuffer 0, s2))"
    and s2: "displayed_buffer s2 = 1" "yres_virtual (vi s2) = 4" "yoffset (vi s2) = 2"
      "bits_per_pixel (vi s2) = 32"
    by auto
  from fbdev_flip_alternates [OF init nn db, of False "[0]" "- 1"] flip1 fbs obtain s3 where
    "fbdev_flip False (- 1) s2 = Some (Inr (Framebuffer 1, s3))"
    "displayed_buffer s3 = 0" "yoffset (vi s3) = 0"
    by auto
  with init start flip1 s2 show ?thesis by blast
qed

text \<open>
  C3. After every \<open>fbdev_init\<close> that returns a surface, under either strategy, every
  byte of the returned surface's \<open>height * row_bytes\<close> extent is zero; and the device's
  memory region (\<open>smem_len\<close> bytes from \<open>mmio_start\<close>) is all zero in the state
  \<open>fbdev_init_clear\<close> hands to the strategy-specific part, and still is on return.
\<close>

theorem fbdev_init_zero_filled:
  assumes "fbdev_init e s = Inr (r, s')" and "r \<noteq> NULL_surface"
  shows "\<exists>fb d. registered_fb_at s 0 = Some fb \<and> surface_at s' r = Some d \<and>
           (\<forall>i < unat (height d * row_bytes d). mem s' (data d + of_nat i) = 0) \<and>
           (\<forall>i < unat (smem_len (fb_fix fb)).
              mem (fbdev_init_clear e fb s) (mmio_start (fb_fix fb) + of_nat i) = 0 \<and>
              mem s' (mmio_start (fb_fix fb) + of_nat i) = 0)"
proof -
  from assms have num: "num_registered_fb s \<noteq> 0"
    by (auto simp: fbdev_init_def)
  with assms obtain fb where fb: "registered_fb_at s 0 = Some fb"
    by (auto simp: fbdev_init_def split: option.splits)
  let ?c = "fbdev_init_clear e fb s"
  have cleared: "mem ?c (mmio_start (fb_fix fb) + of_nat i) = 0"
    if "i < unat (smem_len (fb_fix fb))" for i
    using that by (simp add: fbdev_init_clear_fields memset_keeps_zero memset_zero_region)
  have "\<exists>s2 d. fbdev_init_finish e fb s2 = Inr (r, s') \<and> mem s2 = mem ?c \<and>
          surface_at s2 (gr_draw s2) = Some d \<and> surface_at s2 r = Some d"
  proof (cases "yres (vi_reply e) * line_length (fi_reply e) * 2 \<le> smem_len (fi_reply e)")
    case True
    let ?s = "fbdev_init_double ?c"
    from True assms(1) have fin: "fbdev_init_finish e fb ?s = Inr (r, s')"
      by (simp add: fbdev_init_registered [OF num fb])
    from fbdev_init_finish_elim [OF fin] obtain d where
      "surface_at ?s (gr_draw ?s) = Some d" "r = gr_draw ?s" by blast
    with fin show ?thesis by (intro exI [of _ ?s] exI [of _ d]) (simp add: fbdev_init_double_fields)
  next
    case False
    with assms obtain s2 where
      single: "fbdev_init_single e ?c = Inr (s2, True)"
      and fin: "fbdev_init_finish e fb s2 = Inr (r, s')"
      by (auto simp: fbdev_init_registered [OF num fb] split: sum.splits if_splits)
    from fbdev_init_single_Inr [OF single] have m: "mem s2 = mem ?c" by auto
    from fbdev_init_finish_elim [OF fin] obtain d where
      "surface_at s2 (gr_draw s2) = Some d" "r = gr_draw s2" by blast
    with fin m show ?thesis by (intro exI [of _ s2] exI [of _ d]) simp
  qed
  then obtain s2 d where fin: "fbdev_init_finish e fb s2 = Inr (r, s')"
    and m: "mem s2 = mem ?c" and d: "surface_at s2 r = Some d" "surface_at s2 (gr_draw s2) = Some d"
    by blast
  from fbdev_init_finish_elim [OF fin] d have
    mem': "mem s' = memset (mem s2) (data d) 0 (unat (height d * row_bytes d))"
    and same: "gr_framebuffer s' = gr_framebuffer s2" "surfaces s' = surfaces s2"
    by auto
  from same d(1) have "surface_at s' r = Some d"
    by (simp add: surface_at_cong [of s' s2])
  moreover have "\<forall>i < unat (height d * row_bytes d). mem s' (data d + of_nat i) = 0"
    by (simp add: mem' memset_zero_region)
  moreover have "\<forall>i < unat (smem_len (fb_fix fb)).
      mem ?c (mmio_start (fb_fix fb) + of_nat i) = 0 \<and>
      mem s' (mmio_start (fb_fix fb) + of_nat i) = 0"
    using cleared by (simp add: mem' m memset_keeps_zero)
  ultimately show ?thesis using fb by blast
qed

theorem fbdev_init_zero_filled_witness:
  "\<exists>s'. fbdev_init (answers small_panel) (boot small_panel) = Inr (Allocated 0x2000, s') \<and>
     mem s' 0x3000 = 0 \<and> mem s' 0x300F = 0 \<and> mem s' 0x1000 = 0 \<and> mem s' 0x100F = 0"
proof -
  from fbdev_init_small_panel obtain s' where
    init: "fbdev_init (answers small_panel) (boot small_panel) = Inr (Allocated 0x2000, s')"
    and d: "surfaces s' 0x2000 =
      Some \<lparr>width = 2, height = 2, row_bytes = 8, pixel_bytes = 4, data = 0x3000\<rparr>"
    by blast
  from fbdev_init_zero_filled [OF init] d have
    draw: "\<forall>i<16. mem s' (0x3000 + of_nat i) = 0"
    and dev: "\<forall>i<16. mem s' (0x1000 + of_nat i) = 0"
    by (auto simp: surface_at_def boot_def registered_fb_at_def small_panel_def)
  from draw [rule_format, of 0] draw [rule_format, of 15]
    dev [rule_format, of 0] dev [rule_format, of 15] init
  show ?thesis by simp
qed

text \<open>
  C4. The small panel, with the allocator serving the descriptor at \<open>0x2000\<close> and failing
  on the pixel data: \<open>fbdev_init\<close> returns no surface and logs the allocation error,
  but \<open>gr_draw\<close> still points to the descriptor, whose \<open>data\<close> is null, and the
  descriptor's block is still allocated.
\<close>

theorem fbdev_init_allocation_failure_leaves_descriptor:
  "\<exists>s'. fbdev_init ((answers small_panel)\<lparr>data_alloc := None\<rparr>) (boot small_panel) =
       Inr (NULL_surface, s') \<and>
     klog s' = [''fb0 reports (possibly inaccurate):'', ''failed to allocate in-memory surface''] \<and>
     gr_draw s' = Allocated 0x2000 \<and>
     surfaces s' 0x2000 =
       Some \<lparr>width = 2, height = 2, row_bytes = 8, pixel_bytes = 4, data = 0\<rparr> \<and>
     blocks s' = [(0x2000, 20)]"
proof -
  let ?e = "(answers small_panel)\<lparr>data_alloc := None\<rparr>"
  let ?c = "fbdev_init_clear ?e small_panel (boot small_panel)"
  let ?d = "\<lparr>width = 2, height = 2, row_bytes = 8, pixel_bytes = 4, data = 0 :: addr\<rparr>"
  let ?s2 = "?c\<lparr>double_buffered := False,
                 blocks := [(0x2000, sizeof_GRSurface)],
                 gr_draw := Allocated 0x2000,
                 surfaces := (surfaces ?c)(0x2000 \<mapsto> ?d),
                 klog := klog ?c @ [''failed to allocate in-memory surface'']\<rparr>"
  have reg: "num_registered_fb (boot small_panel) \<noteq> 0"
    "registered_fb_at (boot small_panel) 0 = Some small_panel"
    by (simp_all add: boot_def registered_fb_at_def)
  have single: "fbdev_init_single ?e ?c = Inr (?s2, False)"
    by (simp add: fbdev_init_single_def kmalloc_def block_available_def device_regions_def
        regions_disjoint_def sizeof_GRSurface_def List.map_filter_def printk_def
        fbdev_init_clear_fields small_device_defs Let_def)
  have init: "fbdev_init ?e (boot small_panel) = Inr (NULL_surface, ?s2)"
    unfolding fbdev_init_registered [OF reg] single
    by (simp add: answers_def small_panel_def panel_vi_def)
  from init show ?thesis
    by (simp add: fbdev_init_clear_fields sizeof_GRSurface_def boot_def)
qed

text \<open>
  C5. Without double buffering and without \<^verbatim>\<open>RECOVERY_BGRA\<close>, when the drawing buffer
  shares no address with the \<open>height * row_bytes\<close> bytes at \<open>gr_framebuffer[0].data\<close> (the
  state \<open>fbdev_init\<close> leaves on a device whose memory holds a frame, see
  \<open>fbdev_init_software_flip_ready\<close>), \<open>fbdev_flip\<close> returns; afterwards each of the
  \<open>height * row_bytes\<close> bytes from \<open>gr_framebuffer[0].data\<close> equals the byte the drawing
  buffer held at the same offset, and the surface returned is the \<open>gr_draw\<close> of before,
  which is still \<open>gr_draw\<close> and still describes the same buffer.
\<close>

theorem fbdev_flip_direct_copy:
  assumes "\<not> double_buffered s" and "surface_at s (gr_draw s) = Some d"
    and "regions_disjoint (data (fst (gr_framebuffer s))) (unat (height d * row_bytes d))
           (data d) (unat (height d * row_bytes d))"
  shows "\<exists>s'. fbdev_flip False ret s = Some (Inr (gr_draw s, s')) \<and>
           gr_draw s' = gr_draw s \<and> surface_at s' (gr_draw s') = Some d \<and>
           (\<forall>i < unat (height d * row_bytes d).
              mem s' (data (fst (gr_framebuffer s)) + of_nat i) = mem s (data d + of_nat i))"
proof -
  from regions_disjoint_region [OF assms(3)]
  have "\<forall>i < unat (height d * row_bytes d).
      memcpy (mem s) (data (fst (gr_framebuffer s))) (data d) (unat (height d * row_bytes d))
        (data (fst (gr_framebuffer s)) + of_nat i) = mem s (data d + of_nat i)"
    by (simp add: memcpy_copies)
  then show ?thesis
    unfolding fbdev_flip_direct [OF assms(1,2)] using assms(2) by simp
qed

theorem fbdev_flip_direct_copy_witness:
  "\<exists>s1 s2. fbdev_init (answers small_panel) (boot small_panel) = Inr (Allocated 0x2000, s1) \<and>
     fbdev_flip False 0 (s1\<lparr>mem := (mem s1)(0x3005 := 0x77)\<rparr>) =
       Some (Inr (Allocated 0x2000, s2)) \<and>
     gr_draw s2 = Allocated 0x2000 \<and> mem s2 0x1005 = 0x77"
proof -
  from fbdev_init_small_panel obtain s1 where
    s1: "fbdev_init (answers small_panel) (boot small_panel) = Inr (Allocated 0x2000, s1)"
      "\<not> double_buffered s1" "gr_draw s1 = Allocated 0x2000"
      "fst (gr_framebuffer s1) =
         \<lparr>width = 2, height = 2, row_bytes = 8, pixel_bytes = 4, data = 0x1000\<rparr>"
      "surfaces s1 0x2000 =
         Some \<lparr>width = 2, height = 2, row_bytes = 8, pixel_bytes = 4, data = 0x3000\<rparr>"
    by blast
  let ?s = "s1\<lparr>mem := (mem s1)(0x3005 := 0x77)\<rparr>"
  let ?d = "\<lparr>width = 2, height = 2, row_bytes = 8, pixel_bytes = 4, data = 0x3000 :: addr\<rparr>"
  have h: "\<not> double_buffered ?s" "surface_at ?s (gr_draw ?s) = Some ?d"
    "regions_disjoint (data (fst (gr_framebuffer ?s))) (unat (height ?d * row_bytes ?d))
       (data ?d) (unat (height ?d * row_bytes ?d))"
    using s1 by (simp_all add: surface_at_def regions_disjoint_def)
  from fbdev_flip_direct_copy [OF h, of 0] obtain s2 where
    flip: "fbdev_flip False 0 ?s = Some (Inr (gr_draw ?s, s2))" "gr_draw s2 = gr_draw ?s"
    and copy: "\<forall>i<16. mem s2 (data (fst (gr_framebuffer ?s)) + of_nat i) =
      mem ?s (data ?d + of_nat i)"
    by auto
  from copy [rule_format, of 5] s1(4) have "mem s2 0x1005 = 0x77" by simp
  with s1 flip show ?thesis by auto
qed

text \<open>
  C6. Without double buffering and with \<^verbatim>\<open>RECOVERY_BGRA\<close>, when the extent
  \<open>height * row_bytes\<close> is a whole number of 4-byte pixels (as it is when the row stride
  is, see \<open>extent_whole_pixels\<close>) and the drawing buffer shares no address with that
  many bytes at \<open>gr_framebuffer[0].data\<close>, \<open>fbdev_flip\<close> returns (the loop ends), and
  for every pixel \<open>j\<close> of the extent the device's bytes \<open>4j\<close>, \<open>4j+1\<close>, \<open>4j+2\<close>, \<open>4j+3\<close>
  are the drawing buffer's bytes \<open>4j+2\<close>, \<open>4j+1\<close>, \<open>4j\<close>, \<open>4j+3\<close>: a pixel \<open>(r,g,b,a)\<close>
  arrives as \<open>(b,g,r,a)\<close>.
\<close>

theorem fbdev_flip_bgra_swaps:
  assumes "\<not> double_buffered s" and "surface_at s (gr_draw s) = Some d"
    and "regions_disjoint (data (fst (gr_framebuffer s))) (unat (height d * row_bytes d))
           (data d) (unat (height d * row_bytes d))"
    and "4 dvd unat (height d * row_bytes d)"
  shows "\<exists>s'. fbdev_flip True ret s = Some (Inr (gr_draw s, s')) \<and>
           gr_draw s' = gr_draw s \<and> surface_at s' (gr_draw s') = Some d \<and>
           (\<forall>j < unat (height d * row_bytes d) div 4.
              mem s' (data (fst (gr_framebuffer s)) + of_nat (4 * j)) =
                mem s (data d + of_nat (4 * j + 2)) \<and>
              mem s' (data (fst (gr_framebuffer s)) + of_nat (4 * j + 1)) =
                mem s (data d + of_nat (4 * j + 1)) \<and>
              mem s' (data (fst (gr_framebuffer s)) + of_nat (4 * j + 2)) =
                mem s (data d + of_nat (4 * j)) \<and>
              mem s' (data (fst (gr_framebuffer s)) + of_nat (4 * j + 3)) =
                mem s (data d + of_nat (4 * j + 3)))"
proof -
  let ?n = "unat (height d * row_bytes d)"
  let ?f = "data (fst (gr_framebuffer s))"
  let ?m = "bgra_pixels (mem s) ?f (data d) 0 (?n div 4)"
  from assms(4) have n: "4 * (?n div 4) = ?n" by simp
  have "?n < 2 ^ 32"
    using unsigned_less [of "height d * row_bytes d", where 'a = nat] by simp
  then have bound: "4 * (?n div 4) \<le> 2 ^ 32"
    by (simp add: n)
  have disj: "region (?f + 0) (4 * (?n div 4)) \<inter> region (data d + 0) (4 * (?n div 4)) = {}"
    using regions_disjoint_region [OF assms(3)] by (simp add: n)
  have px: "?m (?f + of_nat (4 * j + c)) = mem s (data d + of_nat (4 * j + bgra_src c))"
    if "j < ?n div 4" "c < 4" for j c
    using bgra_pixels_value [OF disj bound that, of "mem s"] by simp
  have "\<forall>j < ?n div 4.
      ?m (?f + of_nat (4 * j)) = mem s (data d + of_nat (4 * j + 2)) \<and>
      ?m (?f + of_nat (4 * j + 1)) = mem s (data d + of_nat (4 * j + 1)) \<and>
      ?m (?f + of_nat (4 * j + 2)) = mem s (data d + of_nat (4 * j)) \<and>
      ?m (?f + of_nat (4 * j + 3)) = mem s (data d + of_nat (4 * j + 3))"
    using px [of _ 0] px [of _ 1] px [of _ 2] px [of _ 3] by (simp add: bgra_src_def)
  then show ?thesis
    unfolding fbdev_flip_bgra [OF assms(1,2,4)] using assms(2) by simp
qed

theorem fbdev_flip_bgra_swaps_witness:
  "\<exists>s1 s2. fbdev_init (answers small_panel) (boot small_panel) = Inr (Allocated 0x2000, s1) \<and>
     fbdev_flip True 0
       (s1\<lparr>mem := (mem s1)(0x3004 := 0x11, 0x3005 := 0x22, 0x3006 := 0x33, 0x3007 := 0x44)\<rparr>) =
       Some (Inr (Allocated 0x2000, s2)) \<and>
     mem s2 0x1004 = 0x33 \<and> mem s2 0x1005 = 0x22 \<and> mem s2 0x1006 = 0x11 \<and>
     mem s2 0x1007 = 0x44"
proof -
  from fbdev_init_small_panel obtain s1 where
    s1: "fbdev_init (answers small_panel) (boot small_panel) = Inr (Allocated 0x2000, s1)"
      "\<not> double_buffered s1" "gr_draw s1 = Allocated 0x2000"
      "fst (gr_framebuffer s1) =
         \<lparr>width = 2, height = 2, row_bytes = 8, pixel_bytes = 4, data = 0x1000\<rparr>"
      "surfaces s1 0x2000 =
         Some \<lparr>width = 2, height = 2, row_bytes = 8, pixel_bytes = 4, data = 0x3000\<rparr>"
    by blast
  let ?s = "s1\<lparr>mem := (mem s1)(0x3004 := 0x11, 0x3005 := 0x22, 0x3006 := 0x33, 0x3007 := 0x44)\<rparr>"
  let ?d = "\<lparr>width = 2, height = 2, row_bytes = 8, pixel_bytes = 4, data = 0x3000 :: addr\<rparr>"
  have h: "\<not> double_buffered ?s" "surface_at ?s (gr_draw ?s) = Some ?d"
    "regions_disjoint (data (fst (gr_framebuffer ?s))) (unat (height ?d * row_bytes ?d))
       (data ?d) (unat (height ?d * row_bytes ?d))"
    "4 dvd unat (height ?d * row_bytes ?d)"
    using s1 by (simp_all add: surface_at_def regions_disjoint_def)
  from fbdev_flip_bgra_swaps [OF h, of 0] obtain s2 where
    flip: "fbdev_flip True 0 ?s = Some (Inr (gr_draw ?s, s2))"
    and swap: "\<forall>j<4.
      mem s2 (data (fst (gr_framebuffer ?s)) + of_nat (4 * j)) =
        mem ?s (data ?d + of_nat (4 * j + 2)) \<and>
      mem s2 (data (fst (gr_framebuffer ?s)) + of_nat (4 * j + 1)) =
        mem ?s (data ?d + of_nat (4 * j + 1)) \<and>
      mem s2 (data (fst (gr_framebuffer ?s)) + of_nat (4 * j + 2)) =
        mem ?s (data ?d + of_nat (4 * j)) \<and>
      mem s2 (data (fst (gr_framebuffer ?s)) + of_nat (4 * j + 3)) =
        mem ?s (data ?d + of_nat (4 * j + 3))"
    by auto
  from swap [rule_format, of 1] s1(4)
  have "mem s2 0x1004 = 0x33 \<and> mem s2 0x1005 = 0x22 \<and> mem s2 0x1006 = 0x11 \<and>
      mem s2 0x1007 = 0x44"
    by simp
  with s1 flip show ?thesis by auto
qed

text \<open>
  C7. With a device registered and the comparison \<open>yres * line_length * 2 \<le> smem_len\<close>
  failing, every return of \<open>fbdev_init\<close> leaves \<open>double_buffered\<close> clear. When it returns a
  surface, that surface is an allocated descriptor (also kept in \<open>gr_draw\<close>) with the
  width, height, row stride and pixel size of \<open>gr_framebuffer[0]\<close>, which are the
  device's; its \<open>data\<close> is not null and is a live block of \<open>height * row_bytes\<close> bytes
  that starts at no block that was live before the call and shares no address with any
  of them, nor with the device's memory (\<open>smem_len\<close> bytes from \<open>mmio_start\<close>). And
  \<open>fbdev_init\<close> does return that surface whenever the allocator offers both blocks.
\<close>

theorem fbdev_init_software_buffering:
  assumes "num_registered_fb s \<noteq> 0" and "registered_fb_at s 0 = Some fb"
    and "\<not> yres (vi_reply e) * line_length (fi_reply e) * 2 \<le> smem_len (fi_reply e)"
  shows "(\<forall>r s'. fbdev_init e s = Inr (r, s') \<longrightarrow>
            \<not> double_buffered s' \<and>
            (r \<noteq> NULL_surface \<longrightarrow>
              (\<exists>p d. r = Allocated p \<and> gr_draw s' = Allocated p \<and> surfaces s' p = Some d \<and>
                 fst (gr_framebuffer s') =
                   \<lparr>width = xres (vi_reply e), height = yres (vi_reply e),
                    row_bytes = line_length (fi_reply e),
                    pixel_bytes = bits_per_pixel (vi_reply e) div 8,
                    data = mmio_start (fb_fix fb)\<rparr> \<and>
                 width d = width (fst (gr_framebuffer s')) \<and>
                 height d = height (fst (gr_framebuffer s')) \<and>
                 row_bytes d = row_bytes (fst (gr_framebuffer s')) \<and>
                 pixel_bytes d = pixel_bytes (fst (gr_framebuffer s')) \<and>
                 data d \<noteq> 0 \<and>
                 (data d, unat (height d * row_bytes d)) \<in> set (blocks s') \<and>
                 list_all (\<lambda>b. fst b \<noteq> data d \<and>
                     regions_disjoint (data d) (unat (height d * row_bytes d)) (fst b) (snd b))
                   (blocks s) \<and>
                 regions_disjoint (data d) (unat (height d * row_bytes d))
                   (mmio_start (fb_fix fb)) (unat (smem_len (fb_fix fb))) \<and>
                 region (data d) (unat (height d * row_bytes d)) \<inter>
                   region (mmio_start (fb_fix fb)) (unat (smem_len (fb_fix fb))) = {}))) \<and>
         (\<forall>p q. surface_alloc e = Some p \<and> block_available s p sizeof_GRSurface \<and>
            data_alloc e = Some q \<and>
            block_available (s\<lparr>blocks := (p, sizeof_GRSurface) # blocks s\<rparr>) q
              (unat (yres (vi_reply e) * line_length (fi_reply e))) \<longrightarrow>
            (\<exists>s'. fbdev_init e s = Inr (Allocated p, s')))"
proof (intro conjI allI impI)
  fix r s'
  assume ret: "fbdev_init e s = Inr (r, s')"
  from ret assms(3) obtain s2 allocated where
    single: "fbdev_init_single e (fbdev_init_clear e fb s) = Inr (s2, allocated)"
    and rest: "(if allocated then fbdev_init_finish e fb s2 else Inr (NULL_surface, s2)) = Inr (r, s')"
    by (auto simp: fbdev_init_registered [OF assms(1,2)] split: sum.splits)
  from fbdev_init_single_Inr [OF single] have "\<not> double_buffered s2" by blast
  with rest show single': "\<not> double_buffered s'"
    by (cases allocated) (auto dest: fbdev_init_finish_elim)
  assume "r \<noteq> NULL_surface"
  from fbdev_init_software [OF ret this single'] assms(2) obtain p q where
    st: "r = Allocated p" "gr_draw s' = Allocated p"
      "fst (gr_framebuffer s') =
         \<lparr>width = xres (vi_reply e), height = yres (vi_reply e),
          row_bytes = line_length (fi_reply e),
          pixel_bytes = bits_per_pixel (vi_reply e) div 8,
          data = mmio_start (fb_fix fb)\<rparr>"
      "surfaces s' = (surfaces s)(p \<mapsto> (fst (gr_framebuffer s'))\<lparr>data := q\<rparr>)"
      "q \<noteq> 0"
      "block_available (s\<lparr>blocks := (p, sizeof_GRSurface) # blocks s\<rparr>) q
         (unat (yres (vi_reply e) * line_length (fi_reply e)))"
      "blocks s' =
         (q, unat (yres (vi_reply e) * line_length (fi_reply e)))
         # (p, sizeof_GRSurface) # blocks s"
    by auto
  let ?n = "unat (yres (vi_reply e) * line_length (fi_reply e))"
  let ?d = "(fst (gr_framebuffer s'))\<lparr>data := q\<rparr>"
  have reg: "registered_fb_at (s\<lparr>blocks := (p, sizeof_GRSurface) # blocks s\<rparr>) 0 = Some fb"
    using assms(2) by (simp add: registered_fb_at_def split: if_splits)
  from block_available_device [OF st(6) reg]
  have dev: "regions_disjoint q ?n (mmio_start (fb_fix fb)) (unat (smem_len (fb_fix fb)))" .
  from st(6) have old: "list_all (\<lambda>b. fst b \<noteq> q \<and> regions_disjoint q ?n (fst b) (snd b)) (blocks s)"
    by (auto simp: block_available_def list_all_iff)
  show "\<exists>p d. r = Allocated p \<and> gr_draw s' = Allocated p \<and> surfaces s' p = Some d \<and>
      fst (gr_framebuffer s') =
        \<lparr>width = xres (vi_reply e), height = yres (vi_reply e),
         row_bytes = line_length (fi_reply e),
         pixel_bytes = bits_per_pixel (vi_reply e) div 8,
         data = mmio_start (fb_fix fb)\<rparr> \<and>
      width d = width (fst (gr_framebuffer s')) \<and>
      height d = height (fst (gr_framebuffer s')) \<and>
      row_bytes d = row_bytes (fst (gr_framebuffer s')) \<and>
      pixel_bytes d = pixel_bytes (fst (gr_framebuffer s')) \<and>
      data d \<noteq> 0 \<and>
      (data d, unat (height d * row_bytes d)) \<in> set (blocks s') \<and>
      list_all (\<lambda>b. fst b \<noteq> data d \<and>
          regions_disjoint (data d) (unat (height d * row_bytes d)) (fst b) (snd b))
        (blocks s) \<and>
      regions_disjoint (data d) (unat (height d * row_bytes d))
        (mmio_start (fb_fix fb)) (unat (smem_len (fb_fix fb))) \<and>
      region (data d) (unat (height d * row_bytes d)) \<inter>
        region (mmio_start (fb_fix fb)) (unat (smem_len (fb_fix fb))) = {}"
    using st dev old regions_disjoint_region [OF dev]
    by (intro exI [of _ p] exI [of _ ?d]) simp
next
  fix p q
  let ?c = "fbdev_init_clear e fb s"
  let ?n = "unat (yres (vi_reply e) * line_length (fi_reply e))"
  assume "surface_alloc e = Some p \<and> block_available s p sizeof_GRSurface \<and>
      data_alloc e = Some q \<and>
      block_available (s\<lparr>blocks := (p, sizeof_GRSurface) # blocks s\<rparr>) q ?n"
  then have al: "surface_alloc e = Some p" "block_available s p sizeof_GRSurface"
    "data_alloc e = Some q"
    "block_available (s\<lparr>blocks := (p, sizeof_GRSurface) # blocks s\<rparr>) q ?n"
    by simp_all
  have av1: "block_available ?c p sizeof_GRSurface"
    using al(2) block_available_cong [of ?c s p sizeof_GRSurface]
    by (simp add: fbdev_init_clear_fields)
  have av2: "block_available (?c\<lparr>blocks := (p, sizeof_GRSurface) # blocks ?c\<rparr>) q
      (unat (height (fst (gr_framebuffer ?c)) * row_bytes (fst (gr_framebuffer ?c))))"
    using al(4)
      block_available_cong [of "?c\<lparr>blocks := (p, sizeof_GRSurface) # blocks ?c\<rparr>"
        "s\<lparr>blocks := (p, sizeof_GRSurface) # blocks s\<rparr>" q ?n]
    by (simp add: fbdev_init_clear_fields)
  from fbdev_init_single_allocated [OF al(1) av1 al(3) av2] obtain s2 where
    single: "fbdev_init_single e ?c = Inr (s2, True)" and draw: "gr_draw s2 = Allocated p"
    and at: "surfaces s2 p = Some ((fst (gr_framebuffer ?c))\<lparr>data := q\<rparr>)"
    by blast
  from draw at have "surface_at s2 (gr_draw s2) = Some ((fst (gr_framebuffer ?c))\<lparr>data := q\<rparr>)"
    by (simp add: surface_at_def)
  from fbdev_init_finish_Inr [OF this, of e fb] draw obtain s' where
    "fbdev_init_finish e fb s2 = Inr (Allocated p, s')" by auto
  then show "\<exists>s'. fbdev_init e s = Inr (Allocated p, s')"
    using assms(3) single by (simp add: fbdev_init_registered [OF assms(1,2)])
qed

theorem fbdev_init_software_buffering_witness:
  "\<exists>s' d. fbdev_init (answers small_panel) (boot small_panel) = Inr (Allocated 0x2000, s') \<and>
     \<not> double_buffered s' \<and> surfaces s' 0x2000 = Some d \<and>
     height d = 2 \<and> row_bytes d = 8 \<and> data d = 0x3000 \<and>
     regions_disjoint 0x3000 16 0x1000 16"
proof -
  have reg: "num_registered_fb (boot small_panel) \<noteq> 0"
    "registered_fb_at (boot small_panel) 0 = Some small_panel"
    by (simp_all add: boot_def registered_fb_at_def)
  have small: "\<not> yres (vi_reply (answers small_panel)) *
      line_length (fi_reply (answers small_panel)) * 2
      \<le> smem_len (fi_reply (answers small_panel))"
    by (simp add: answers_def small_panel_def panel_vi_def)
  from fbdev_init_small_panel obtain s' where
    init: "fbdev_init (answers small_panel) (boot small_panel) = Inr (Allocated 0x2000, s')"
    and d: "surfaces s' 0x2000 =
      Some \<lparr>width = 2, height = 2, row_bytes = 8, pixel_bytes = 4, data = 0x3000\<rparr>"
    by blast
  from fbdev_init_software_buffering [OF reg small] init d
  have "\<not> double_buffered s'" "regions_disjoint 0x3000 16 0x1000 16"
    by (auto simp: small_panel_def)
  with init d show ?thesis by auto
qed

text \<open>
  C8. Let the device be set (\<open>fbi\<close>) and let it answer a command with a negative value.
  \<open>fbdev_blank\<close> then returns normally: the command was sent, the failure is in the
  log, and nothing else changed. \<open>fbdev_flip\<close> under double buffering returns normally
  too: it returns the buffer at the displayed index as the new \<open>gr_draw\<close> and
  complements the displayed index, and its result is the result of the same flip with a
  successful command but for the log line.
\<close>

theorem device_command_failure_not_fatal:
  assumes "ret < 0" and "fbi s = Some fb"
  shows "fbdev_blank ret blank s =
           Inr (s\<lparr>issued := issued s @
                    [FBIOBLANK (if blank then FB_BLANK_POWERDOWN else FB_BLANK_UNBLANK)],
                  klog := klog s @ [''ioctl(): blank'']\<rparr>) \<and>
         (double_buffered s \<and> (displayed_buffer s = 0 \<or> displayed_buffer s = 1) \<longrightarrow>
           (\<exists>s' t. fbdev_flip recovery_bgra ret s =
                     Some (Inr (Framebuffer (displayed_buffer s), s')) \<and>
              gr_draw s' = Framebuffer (displayed_buffer s) \<and>
              displayed_buffer s' = 1 - displayed_buffer s \<and>
              fbdev_flip recovery_bgra 0 s = Some (Inr (Framebuffer (displayed_buffer s), t)) \<and>
              s' = t\<lparr>klog := klog t @ [''active fb swap failed'']\<rparr>))"
proof (intro conjI impI)
  show "fbdev_blank ret blank s =
      Inr (s\<lparr>issued := issued s @
               [FBIOBLANK (if blank then FB_BLANK_POWERDOWN else FB_BLANK_UNBLANK)],
             klog := klog s @ [''ioctl(): blank'']\<rparr>)"
    using assms by (simp add: fbdev_blank_Inr [where fb = fb])
next
  assume "double_buffered s \<and> (displayed_buffer s = 0 \<or> displayed_buffer s = 1)"
  then have db: "double_buffered s" and idx: "displayed_buffer s = 0 \<or> displayed_buffer s = 1"
    by simp_all
  show "\<exists>s' t. fbdev_flip recovery_bgra ret s =
                     Some (Inr (Framebuffer (displayed_buffer s), s')) \<and>
              gr_draw s' = Framebuffer (displayed_buffer s) \<and>
              displayed_buffer s' = 1 - displayed_buffer s \<and>
              fbdev_flip recovery_bgra 0 s = Some (Inr (Framebuffer (displayed_buffer s), t)) \<and>
              s' = t\<lparr>klog := klog t @ [''active fb swap failed'']\<rparr>"
    unfolding fbdev_flip_double_step [OF db assms(2) idx]
    using assms(1) by simp
qed

theorem device_command_failure_not_fatal_witness:
  "\<exists>s1 s2 s3.
     fbdev_init (answers panel) (boot panel) = Inr (Framebuffer 1, s1) \<and>
     fbdev_blank (- 5) True s1 = Inr s2 \<and> klog s2 = klog s1 @ [''ioctl(): blank''] \<and>
     fbdev_flip False (- 5) s1 = Some (Inr (Framebuffer 0, s3)) \<and>
     gr_draw s3 = Framebuffer 0 \<and> displayed_buffer s3 = 1"
proof -
  from fbdev_init_panel obtain s1 where
    init: "fbdev_init (answers panel) (boot panel) = Inr (Framebuffer 1, s1)"
    and s1: "double_buffered s1" "displayed_buffer s1 = 0" "fbi s1 = Some panel"
    by blast
  have neg: "(- 5 :: int) < 0" by simp
  from device_command_failure_not_fatal [OF neg s1(3), of True False] s1(1,2) init
  show ?thesis by auto
qed

text \<open>
  C9. Under double buffering \<open>fbdev_exit\<close> changes nothing but \<open>gr_draw\<close>, which it
  clears: memory, the allocator's blocks and the buffer descriptors are as before.
  Without double buffering, when \<open>gr_draw\<close> is an allocated descriptor whose \<open>data\<close> is
  an allocated block (the state \<open>fbdev_init\<close> leaves, see
  \<open>fbdev_init_software_exit_ready\<close>), it releases the block of the data and the block
  of the descriptor, the descriptor is gone, and \<open>gr_draw\<close> is cleared. Whenever
  \<open>fbdev_exit\<close> returns, \<open>gr_draw\<close> is null.
\<close>

theorem fbdev_exit_releases:
  "(double_buffered s \<longrightarrow> fbdev_exit s = Inr (s\<lparr>gr_draw := NULL_surface\<rparr>)) \<and>
   (\<not> double_buffered s \<and> gr_draw s = Allocated p \<and> surfaces s p = Some d \<and>
    data d \<noteq> 0 \<and> data d \<noteq> p \<and> p \<noteq> 0 \<and>
    p \<in> fst ` set (blocks s) \<and> data d \<in> fst ` set (blocks s) \<longrightarrow>
      fbdev_exit s =
        Inr (s\<lparr>blocks := filter (\<lambda>b. fst b \<noteq> p) (filter (\<lambda>b. fst b \<noteq> data d) (blocks s)),
               surfaces := (surfaces s)(data d := None, p := None),
               gr_draw := NULL_surface\<rparr>)) \<and>
   (\<forall>s'. fbdev_exit s = Inr s' \<longrightarrow> gr_draw s' = NULL_surface)"
  by (auto simp: fbdev_exit_def kfree_def kfree_surface_def surface_at_def
      split: sum.splits option.splits if_splits surface_ptr.splits)

theorem fbdev_exit_releases_witness:
  "\<exists>s1 s2 t1 t2.
     fbdev_init (answers small_panel) (boot small_panel) = Inr (Allocated 0x2000, s1) \<and>
     blocks s1 = [(0x3000, 16), (0x2000, 20)] \<and>
     fbdev_exit s1 = Inr s2 \<and> blocks s2 = [] \<and> surfaces s2 0x2000 = None \<and>
     gr_draw s2 = NULL_surface \<and>
     fbdev_init (answers panel) (boot panel) = Inr (Framebuffer 1, t1) \<and>
     fbdev_exit t1 = Inr t2 \<and> t2 = t1\<lparr>gr_draw := NULL_surface\<rparr>"
proof -
  from fbdev_init_small_panel obtain s1 where
    s1: "fbdev_init (answers small_panel) (boot small_panel) = Inr (Allocated 0x2000, s1)"
      "\<not> double_buffered s1" "gr_draw s1 = Allocated 0x2000"
      "surfaces s1 0x2000 =
         Some \<lparr>width = 2, height = 2, row_bytes = 8, pixel_bytes = 4, data = 0x3000\<rparr>"
      "blocks s1 = [(0x3000, 16), (0x2000, 20)]"
    by blast
  from fbdev_init_panel obtain t1 where
    t1: "fbdev_init (answers panel) (boot panel) = Inr (Framebuffer 1, t1)" "double_buffered t1"
    by blast
  from fbdev_exit_releases [of s1 "0x2000"
      "\<lparr>width = 2, height = 2, row_bytes = 8, pixel_bytes = 4, data = 0x3000\<rparr>"] s1
  have "\<exists>s2. fbdev_exit s1 = Inr s2 \<and> blocks s2 = [] \<and> surfaces s2 0x2000 = None \<and>
      gr_draw s2 = NULL_surface"
    by simp
  moreover from fbdev_exit_releases [of t1] t1(2)
  have "fbdev_exit t1 = Inr (t1\<lparr>gr_draw := NULL_surface\<rparr>)" by simp
  ultimately show ?thesis using s1(1,5) t1(1) by blast
qed

text \<open>
  C10. Without double buffering, in either copy mode, when the drawing buffer shares no
  address with the bytes that \<open>fbdev_flip\<close> writes at \<open>gr_framebuffer[0].data\<close> (the
  \<open>height * row_bytes\<close> bytes of the extent; under \<^verbatim>\<open>RECOVERY_BGRA\<close> the extent rounded up
  to whole 4-byte pixels, which is the extent itself when the row stride is a whole
  number of pixels; \<open>fbdev_init\<close> leaves such a state when those bytes lie inside the
  device's memory, see \<open>fbdev_init_software_flip_ready\<close>), \<open>fbdev_flip\<close> returns and
  leaves every byte of the drawing buffer as it was: it writes nothing outside those
  bytes at \<open>gr_framebuffer[0].data\<close>, and \<open>gr_draw\<close> still describes the same buffer.
\<close>

theorem fbdev_flip_software_keeps_draw_buffer:
  assumes "\<not> double_buffered s" and "surface_at s (gr_draw s) = Some d"
    and "regions_disjoint (data (fst (gr_framebuffer s)))
           (flip_extent recovery_bgra (unat (height d * row_bytes d)))
           (data d) (unat (height d * row_bytes d))"
  shows "\<exists>s'. fbdev_flip recovery_bgra ret s = Some (Inr (gr_draw s, s')) \<and>
           surface_at s' (gr_draw s') = Some d \<and>
           (\<forall>i < unat (height d * row_bytes d).
              mem s' (data d + of_nat i) = mem s (data d + of_nat i)) \<and>
           (\<forall>a. a \<notin> region (data (fst (gr_framebuffer s)))
                      (flip_extent recovery_bgra (unat (height d * row_bytes d))) \<longrightarrow>
              mem s' a = mem s a)"
proof -
  let ?n = "unat (height d * row_bytes d)"
  let ?w = "flip_extent recovery_bgra ?n"
  let ?f = "data (fst (gr_framebuffer s))"
  from regions_disjoint_region [OF assms(3)]
  have out: "data d + of_nat i \<notin> region ?f ?w" if "i < ?n" for i
    using region_I [OF that, of "data d"] by blast
  show ?thesis
  proof (cases recovery_bgra)
    case False
    then have w: "?w = ?n" by (simp add: flip_extent_def)
    have "memcpy (mem s) ?f (data d) ?n a = mem s a" if "a \<notin> region ?f ?n" for a
      using that by (rule memcpy_frame)
    then show ?thesis
      using False out assms(2)
      by (simp add: fbdev_flip_direct [OF assms(1,2)] flip_extent_def)
  next
    case True
    let ?k = "(?n + 3) div 4"
    from True have w: "?w = 4 * ?k" by (simp add: flip_extent_def)
    have ends: "4 * ?k < 2 ^ 32"
    proof (cases "?n = 0")
      case True
      then show ?thesis by simp
    next
      case False
      then have "0 < 4 * ?k" by presburger
      with False assms(3) have "4 * ?k \<le> unat (data d - ?f)"
        by (simp add: regions_disjoint_def w)
      also have "\<dots> < 2 ^ 32"
        using unsigned_less [of "data d - ?f", where 'a = nat] by simp
      finally show ?thesis .
    qed
    have "bgra_pixels (mem s) ?f (data d) 0 ?k a = mem s a" if "a \<notin> region ?f (4 * ?k)" for a
      using that bgra_pixels_frame [of a ?f 0 ?k "mem s" "data d"] by simp
    then show ?thesis
      using True out assms(2)
      by (simp add: fbdev_flip_bgra_passes [OF assms(1,2) ends] flip_extent_def)
  qed
qed

theorem fbdev_flip_software_keeps_draw_buffer_witness:
  "\<exists>s1 s2 s3. fbdev_init (answers small_panel) (boot small_panel) = Inr (Allocated 0x2000, s1) \<and>
     fbdev_flip True 0 (s1\<lparr>mem := (mem s1)(0x3005 := 0x77)\<rparr>) =
       Some (Inr (Allocated 0x2000, s2)) \<and>
     mem s2 0x3005 = 0x77 \<and>
     fbdev_flip False 0 (s1\<lparr>mem := (mem s1)(0x3005 := 0x77)\<rparr>) =
       Some (Inr (Allocated 0x2000, s3)) \<and>
     mem s3 0x3005 = 0x77"
proof -
  from fbdev_init_small_panel obtain s1 where
    s1: "fbdev_init (answers small_panel) (boot small_panel) = Inr (Allocated 0x2000, s1)"
      "\<not> double_buffered s1" "gr_draw s1 = Allocated 0x2000"
      "fst (gr_framebuffer s1) =
         \<lparr>width = 2, height = 2, row_bytes = 8, pixel_bytes = 4, data = 0x1000\<rparr>"
      "surfaces s1 0x2000 =
         Some \<lparr>width = 2, height = 2, row_bytes = 8, pixel_bytes = 4, data = 0x3000\<rparr>"
    by blast
  let ?s = "s1\<lparr>mem := (mem s1)(0x3005 := 0x77)\<rparr>"
  let ?d = "\<lparr>width = 2, height = 2, row_bytes = 8, pixel_bytes = 4, data = 0x3000 :: addr\<rparr>"
  have h: "\<not> double_buffered ?s" "surface_at ?s (gr_draw ?s) = Some ?d"
    using s1 by (simp_all add: surface_at_def)
  have m4: "regions_disjoint (data (fst (gr_framebuffer ?s)))
      (flip_extent True (unat (height ?d * row_bytes ?d)))
      (data ?d) (unat (height ?d * row_bytes ?d))"
    and m1: "regions_disjoint (data (fst (gr_framebuffer ?s)))
      (flip_extent False (unat (height ?d * row_bytes ?d)))
      (data ?d) (unat (height ?d * row_bytes ?d))"
    using s1 by (simp_all add: regions_disjoint_def flip_extent_def)
  from fbdev_flip_software_keeps_draw_buffer [OF h m4, of 0] obtain s2 where
    f2: "fbdev_flip True 0 ?s = Some (Inr (gr_draw ?s, s2))"
    and k2: "\<forall>i<16. mem s2 (data ?d + of_nat i) = mem ?s (data ?d + of_nat i)"
    by auto
  from fbdev_flip_software_keeps_draw_buffer [OF h m1, of 0] obtain s3 where
    f3: "fbdev_flip False 0 ?s = Some (Inr (gr_draw ?s, s3))"
    and k3: "\<forall>i<16. mem s3 (data ?d + of_nat i) = mem ?s (data ?d + of_nat i)"
    by auto
  from k2 [rule_format, of 5] k3 [rule_format, of 5]
  have "mem s2 0x3005 = 0x77" "mem s3 0x3005 = 0x77" by simp_all
  with s1 f2 f3 show ?thesis by auto
qed

end
